theory Spec2Isabelle
  imports Complex_Main
begin

section \<open>Floating-point values\<close>

text \<open>
  The arrays of \<^verbatim>\<open>burnman/main.py\<close> hold numpy \<^verbatim>\<open>float64\<close> values.  A value is
  modelled as a finite real number or one of the three IEEE special values.  Finite
  arithmetic is exact: rounding, overflow of a finite result to infinity and the sign of
  zero are not modelled.  What is modelled is where numpy leaves the finite numbers
  without raising: a division by zero gives an infinity or NaN, the square root of a
  negative number gives NaN, and NaN propagates and compares false.
\<close>

datatype npfloat = Fin real | PInf | NInf | NaN

fun fneg :: "npfloat \<Rightarrow> npfloat" where
  "fneg (Fin a) = Fin (- a)"
| "fneg PInf = NInf"
| "fneg NInf = PInf"
| "fneg NaN = NaN"

fun fadd :: "npfloat \<Rightarrow> npfloat \<Rightarrow> npfloat" where
  "fadd (Fin a) (Fin b) = Fin (a + b)"
| "fadd (Fin a) PInf = PInf"
| "fadd (Fin a) NInf = NInf"
| "fadd PInf (Fin b) = PInf"
| "fadd PInf PInf = PInf"
| "fadd PInf NInf = NaN"
| "fadd NInf (Fin b) = NInf"
| "fadd NInf PInf = NaN"
| "fadd NInf NInf = NInf"
| "fadd NaN y = NaN"
| "fadd x NaN = NaN"

definition fsub :: "npfloat \<Rightarrow> npfloat \<Rightarrow> npfloat" where
  "fsub x y = fadd x (fneg y)"

text \<open>The infinity with the sign of a non-zero real.\<close>

definition inf_of_sign :: "real \<Rightarrow> npfloat" where
  "inf_of_sign a = (if 0 < a then PInf else NInf)"

fun fmul :: "npfloat \<Rightarrow> npfloat \<Rightarrow> npfloat" where
  "fmul (Fin a) (Fin b) = Fin (a * b)"
| "fmul (Fin a) PInf = (if a = 0 then NaN else inf_of_sign a)"
| "fmul (Fin a) NInf = (if a = 0 then NaN else inf_of_sign (- a))"
| "fmul PInf (Fin b) = (if b = 0 then NaN else inf_of_sign b)"
| "fmul NInf (Fin b) = (if b = 0 then NaN else inf_of_sign (- b))"
| "fmul PInf PInf = PInf"
| "fmul PInf NInf = NInf"
| "fmul NInf PInf = NInf"
| "fmul NInf NInf = PInf"
| "fmul NaN y = NaN"
| "fmul x NaN = NaN"

text \<open>
  numpy's \<^verbatim>\<open>/\<close> on \<^verbatim>\<open>float64\<close>: no exception, a zero divisor gives NaN (for \<^verbatim>\<open>0/0\<close>)
  or an infinity.  The zero of the model is unsigned and counts as \<^verbatim>\<open>+0.0\<close>.
\<close>

fun fdiv :: "npfloat \<Rightarrow> npfloat \<Rightarrow> npfloat" where
  "fdiv (Fin a) (Fin b) =
     (if b = 0 then (if a = 0 then NaN else inf_of_sign a) else Fin (a / b))"
| "fdiv (Fin a) PInf = Fin 0"
| "fdiv (Fin a) NInf = Fin 0"
| "fdiv PInf (Fin b) = (if 0 \<le> b then PInf else NInf)"
| "fdiv NInf (Fin b) = (if 0 \<le> b then NInf else PInf)"
| "fdiv PInf PInf = NaN"
| "fdiv PInf NInf = NaN"
| "fdiv NInf PInf = NaN"
| "fdiv NInf NInf = NaN"
| "fdiv NaN y = NaN"
| "fdiv x NaN = NaN"

text \<open>\<^verbatim>\<open>np.sqrt\<close>: NaN on a negative argument (numpy warns, it does not raise).\<close>

fun np_sqrt :: "npfloat \<Rightarrow> npfloat" where
  "np_sqrt (Fin a) = (if a < 0 then NaN else Fin (sqrt a))"
| "np_sqrt PInf = PInf"
| "np_sqrt NInf = NaN"
| "np_sqrt NaN = NaN"

text \<open>The comparison \<^verbatim>\<open>x > y\<close>; every comparison with NaN is false.\<close>

fun fgt :: "npfloat \<Rightarrow> npfloat \<Rightarrow> bool" where
  "fgt (Fin a) (Fin b) = (b < a)"
| "fgt (Fin a) PInf = False"
| "fgt (Fin a) NInf = True"
| "fgt PInf (Fin b) = True"
| "fgt PInf PInf = False"
| "fgt PInf NInf = True"
| "fgt NInf y = False"
| "fgt NaN y = False"
| "fgt x NaN = False"

text \<open>The comparison \<^verbatim>\<open>x >= y\<close>.\<close>

fun fge :: "npfloat \<Rightarrow> npfloat \<Rightarrow> bool" where
  "fge NaN y = False"
| "fge x NaN = False"
| "fge x y = (x = y \<or> fgt x y)"

text \<open>\<^verbatim>\<open>pow(x, 2.)\<close>: the square, with the special values of a product.\<close>

definition pow_2 :: "npfloat \<Rightarrow> npfloat" where
  "pow_2 x = fmul x x"

text \<open>
  Python's built-in \<^verbatim>\<open>sum\<close> and \<^verbatim>\<open>np.sum\<close> over a one-dimensional array: the
  elements added up from 0.  (In exact arithmetic the order of the additions does not
  change the result, also with special values.)
\<close>

definition py_sum :: "npfloat list \<Rightarrow> npfloat" where
  "py_sum xs = foldl fadd (Fin 0) xs"

definition np_sum :: "npfloat list \<Rightarrow> npfloat" where
  "np_sum xs = foldl fadd (Fin 0) xs"

text \<open>
  \<^verbatim>\<open>np.mean\<close> is not given a definition.  The only use of its result is as the
  divisor of \<^verbatim>\<open>chi_factor\<close>, where it matters whether the value is 0, and the
  float64 mean of an array can be 0 when the exact mean is not (the partial sums are
  rounded: \<^verbatim>\<open>np.mean([2**53, 1, -2**53])\<close> is \<^verbatim>\<open>0.0\<close>).  The function is therefore
  a parameter \<open>np_mean\<close> of \<^verbatim>\<open>chi_factor\<close>: the value that \<^verbatim>\<open>np.mean\<close> returns on
  an array, whatever its rounding.
\<close>

section \<open>Errors, arrays and loops\<close>

text \<open>
  The exceptions the module can raise by itself (\<^verbatim>\<open>IndexError\<close> on a read out of
  range, \<^verbatim>\<open>ValueError\<close> when numpy cannot broadcast two shapes, \<^verbatim>\<open>AssertionError\<close>
  from \<^verbatim>\<open>assert\<close>, \<^verbatim>\<open>ZeroDivisionError\<close> from a division of Python floats) and the
  failure of an equation-of-state evaluation, which the module lets through.
\<close>

datatype error = IndexError | ValueError | AssertionError | ZeroDivisionError | EOSError

definition bind :: "error + 'a \<Rightarrow> ('a \<Rightarrow> error + 'b) \<Rightarrow> error + 'b" where
  "bind m f = (case m of Inl e \<Rightarrow> Inl e | Inr x \<Rightarrow> f x)"

text \<open>\<^verbatim>\<open>xs[i]\<close> for a non-negative index, \<^verbatim>\<open>xs[-1]\<close>, and \<^verbatim>\<open>xs[i] = v\<close>.\<close>

definition getitem :: "'a list \<Rightarrow> nat \<Rightarrow> error + 'a" where
  "getitem xs i = (if i < length xs then Inr (xs ! i) else Inl IndexError)"

definition getitem_last :: "'a list \<Rightarrow> error + 'a" where
  "getitem_last xs = (if xs = [] then Inl IndexError else Inr (last xs))"

definition setitem :: "'a list \<Rightarrow> nat \<Rightarrow> 'a \<Rightarrow> error + 'a list" where
  "setitem xs i v = (if i < length xs then Inr (xs[i := v]) else Inl IndexError)"

text \<open>
  \<^verbatim>\<open>np.ndarray(size)\<close> and \<^verbatim>\<open>np.empty_like\<close> allocate without initialising: the cells
  hold an unspecified value until they are written.  \<^verbatim>\<open>np.zeros(size)\<close> fills with 0.
\<close>

definition uninitialized :: npfloat where
  "uninitialized = undefined"

definition np_ndarray :: "nat \<Rightarrow> npfloat list" where
  "np_ndarray sz = replicate sz uninitialized"

definition np_empty_like :: "npfloat list \<Rightarrow> npfloat list" where
  "np_empty_like xs = replicate (length xs) uninitialized"

definition np_zeros :: "nat \<Rightarrow> npfloat list" where
  "np_zeros sz = replicate sz (Fin 0)"

text \<open>
  An elementwise numpy operation on two one-dimensional arrays: equal lengths combine
  index by index, an array of length 1 is broadcast against the other, and any other
  pair of lengths raises \<^verbatim>\<open>ValueError\<close>.
\<close>

definition np_binop ::
  "(npfloat \<Rightarrow> npfloat \<Rightarrow> npfloat) \<Rightarrow> npfloat list \<Rightarrow> npfloat list \<Rightarrow> error + npfloat list" where
  "np_binop f xs ys =
     (if length xs = length ys then Inr (map2 f xs ys)
      else if length xs = 1 then Inr (map (f (hd xs)) ys)
      else if length ys = 1 then Inr (map (\<lambda>x. f x (hd ys)) xs)
      else Inl ValueError)"

text \<open>
  \<^verbatim>\<open>for i in range(n): body\<close> over a state, stopping at the first exception:
  \<open>for_range [0..<n] body s\<close>.
\<close>

fun for_range :: "nat list \<Rightarrow> (nat \<Rightarrow> 's \<Rightarrow> error + 's) \<Rightarrow> 's \<Rightarrow> error + 's" where
  "for_range [] body s = Inr s"
| "for_range (i # is) body s =
     (case body i s of Inl e \<Rightarrow> Inl e | Inr s' \<Rightarrow> for_range is body s')"

section \<open>The record of elastic properties\<close>

text \<open>
  \<^verbatim>\<open>class elastic_properties\<close>: five arrays aligned by index.  The constructor leaves
  the fields \<^verbatim>\<open>None\<close>; every function of the module sizes a record right after
  creating it, and the unsized record is represented with empty arrays.
\<close>

record elastic_properties =
  V :: "npfloat list"
  rho :: "npfloat list"
  K :: "npfloat list"
  G :: "npfloat list"
  fraction :: "npfloat list"

definition elastic_properties_init :: elastic_properties where
  "elastic_properties_init = \<lparr>V = [], rho = [], K = [], G = [], fraction = []\<rparr>"

definition set_size :: "elastic_properties \<Rightarrow> nat \<Rightarrow> elastic_properties" where
  "set_size m sz =
     m\<lparr>V := np_ndarray sz, rho := np_ndarray sz, K := np_ndarray sz,
       G := np_ndarray sz, fraction := np_ndarray sz\<rparr>"

section \<open>Seismic velocities\<close>

text \<open>
  \<^verbatim>\<open>compute_velocities\<close>: three arrays of \<^verbatim>\<open>len(moduli.V)\<close> cells, filled in one
  pass.  The loop state is the triple \<open>(mat_vs, mat_vp, mat_vphi)\<close>; the function
  returns \<open>(mat_vp, mat_vs, mat_vphi)\<close>.
\<close>

definition compute_velocities_body ::
  "elastic_properties \<Rightarrow> nat \<Rightarrow> npfloat list \<times> npfloat list \<times> npfloat list
     \<Rightarrow> error + (npfloat list \<times> npfloat list \<times> npfloat list)" where
  "compute_velocities_body moduli i s =
     (case s of (mat_vs, mat_vp, mat_vphi) \<Rightarrow>
        bind (getitem (G moduli) i) (\<lambda>g.
        bind (getitem (rho moduli) i) (\<lambda>r.
        bind (setitem mat_vs i (np_sqrt (fdiv g r))) (\<lambda>mat_vs'.
        bind (getitem (K moduli) i) (\<lambda>k.
        bind (getitem (G moduli) i) (\<lambda>g'.
        bind (getitem (rho moduli) i) (\<lambda>r'.
        bind (setitem mat_vp i
                (np_sqrt (fdiv (fadd k (fmul (fdiv (Fin 4) (Fin 3)) g')) r'))) (\<lambda>mat_vp'.
        bind (getitem (K moduli) i) (\<lambda>k'.
        bind (getitem (rho moduli) i) (\<lambda>r''.
        bind (setitem mat_vphi i (np_sqrt (fdiv k' r''))) (\<lambda>mat_vphi'.
        Inr (mat_vs', mat_vp', mat_vphi'))))))))))))"

definition compute_velocities ::
  "elastic_properties \<Rightarrow> error + (npfloat list \<times> npfloat list \<times> npfloat list)" where
  "compute_velocities moduli =
     (let n = length (V moduli) in
      bind (for_range [0..<n] (compute_velocities_body moduli)
              (np_ndarray n, np_ndarray n, np_ndarray n))
        (\<lambda>s. case s of (mat_vs, mat_vp, mat_vphi) \<Rightarrow> Inr (mat_vp, mat_vs, mat_vphi)))"

section \<open>Rocks, minerals and averaging schemes\<close>

text \<open>
  The mineral objects, the composite and the averaging schemes live in other modules
  (\<^verbatim>\<open>composite\<close>, \<^verbatim>\<open>averaging_schemes\<close>, \<^verbatim>\<open>seismic\<close>).  This module only calls
  them, so they are parameters here: a mineral is the four equation-of-state functions
  it exposes, each a function of the pressure and temperature last set, which may
  fail; an averaging scheme is its three averaging functions.
\<close>

record mineral =
  molar_volume :: "npfloat \<Rightarrow> npfloat \<Rightarrow> error + npfloat"
  molar_mass :: "npfloat \<Rightarrow> npfloat \<Rightarrow> error + npfloat"
  adiabatic_bulk_modulus :: "npfloat \<Rightarrow> npfloat \<Rightarrow> error + npfloat"
  shear_modulus :: "npfloat \<Rightarrow> npfloat \<Rightarrow> error + npfloat"

text \<open>A phase entry \<^verbatim>\<open>ph\<close>: \<^verbatim>\<open>ph.fraction\<close> and \<^verbatim>\<open>ph.mineral\<close>.\<close>

record phase =
  ph_fraction :: npfloat
  ph_mineral :: mineral

text \<open>The rock: \<^verbatim>\<open>rock.phases\<close> and the thermodynamic state last set, if any.\<close>

record rock =
  phases :: "phase list"
  state :: "(npfloat \<times> npfloat) option"

record averaging_scheme =
  average_bulk_moduli :: "npfloat list \<Rightarrow> npfloat list \<Rightarrow> npfloat list \<Rightarrow> npfloat"
  average_shear_moduli :: "npfloat list \<Rightarrow> npfloat list \<Rightarrow> npfloat list \<Rightarrow> npfloat"
  average_density :: "npfloat list \<Rightarrow> npfloat list \<Rightarrow> npfloat"

text \<open>
  Modelled from the spec: \<^verbatim>\<open>composite.set_state\<close> is not part of this module.  The
  spec gives \<^verbatim>\<open>set_state(pressure, temperature)\<close> as mutating the state of all
  phases, every mineral method then "reflecting the most recent \<^verbatim>\<open>set_state\<close> call on
  the owning rock".
\<close>

definition set_state :: "rock \<Rightarrow> npfloat \<Rightarrow> npfloat \<Rightarrow> rock" where
  "set_state r pressure temperature = r\<lparr>state := Some (pressure, temperature)\<rparr>"

text \<open>
  Modelled from the spec: a call \<^verbatim>\<open>ph.mineral.method()\<close> evaluates the method at the
  state of the owning rock; before any \<^verbatim>\<open>set_state\<close> there is no state to read.
\<close>

definition eos ::
  "rock \<Rightarrow> (mineral \<Rightarrow> npfloat \<Rightarrow> npfloat \<Rightarrow> error + npfloat) \<Rightarrow> phase \<Rightarrow> error + npfloat" where
  "eos r method ph =
     (case state r of None \<Rightarrow> Inl EOSError
      | Some (pressure, temperature) \<Rightarrow> method (ph_mineral ph) pressure temperature)"

text \<open>
  The quotient \<^verbatim>\<open>molar_mass() / molar_volume()\<close> is taken on the values the mineral
  returns, before they are stored in an array: Python floats, whose division raises
  \<^verbatim>\<open>ZeroDivisionError\<close> on a zero divisor.
\<close>

definition py_float_div :: "npfloat \<Rightarrow> npfloat \<Rightarrow> error + npfloat" where
  "py_float_div x y = (if y = Fin 0 then Inl ZeroDivisionError else Inr (fdiv x y))"

section \<open>Moduli of the phases\<close>

text \<open>
  The body of the inner loop of \<^verbatim>\<open>calculate_moduli\<close>, for the phase \<open>midx\<close> at the
  evaluation point \<open>idx\<close>.  The record \<^verbatim>\<open>m\<close> is an element of the list and is
  mutated in place: the list is returned with the element replaced.
\<close>

definition calculate_moduli_inner ::
  "rock \<Rightarrow> nat \<Rightarrow> nat \<Rightarrow> elastic_properties list \<Rightarrow> error + elastic_properties list" where
  "calculate_moduli_inner r idx midx moduli =
     bind (getitem moduli midx) (\<lambda>m.
     bind (getitem (phases r) midx) (\<lambda>ph.
     bind (eos r molar_volume ph) (\<lambda>mv.
     bind (setitem (V m) idx (fmul (ph_fraction ph) mv)) (\<lambda>V'.
     bind (eos r adiabatic_bulk_modulus ph) (\<lambda>k.
     bind (setitem (K m) idx k) (\<lambda>K'.
     bind (eos r shear_modulus ph) (\<lambda>g.
     bind (setitem (G m) idx g) (\<lambda>G'.
     bind (eos r molar_mass ph) (\<lambda>mm.
     bind (eos r molar_volume ph) (\<lambda>mv'.
     bind (py_float_div mm mv') (\<lambda>d.
     bind (setitem (rho m) idx d) (\<lambda>rho'.
     bind (setitem (fraction m) idx (ph_fraction ph)) (\<lambda>fraction'.
     Inr (moduli[midx := m\<lparr>V := V', rho := rho', K := K', G := G',
                            fraction := fraction'\<rparr>]))))))))))))))"

text \<open>The body of the outer loop: the state is the list of records and the rock.\<close>

definition calculate_moduli_body ::
  "npfloat list \<Rightarrow> npfloat list \<Rightarrow> nat \<Rightarrow> elastic_properties list \<times> rock
     \<Rightarrow> error + (elastic_properties list \<times> rock)" where
  "calculate_moduli_body pressures temperatures idx s =
     (case s of (moduli, r) \<Rightarrow>
        bind (getitem pressures idx) (\<lambda>p.
        bind (getitem temperatures idx) (\<lambda>t.
        let r' = set_state r p t in
        bind (for_range [0..<length moduli] (calculate_moduli_inner r' idx) moduli)
          (\<lambda>moduli'. Inr (moduli', r')))))"

text \<open>
  \<^verbatim>\<open>calculate_moduli\<close> returns the list \<^verbatim>\<open>moduli\<close>; the rock, which it leaves at
  the last state set, is returned with it.
\<close>

definition calculate_moduli ::
  "rock \<Rightarrow> npfloat list \<Rightarrow> npfloat list \<Rightarrow> error + (elastic_properties list \<times> rock)" where
  "calculate_moduli r pressures temperatures =
     (let moduli = map (\<lambda>ph. elastic_properties_init) (phases r);
          moduli = map (\<lambda>m. set_size m (length pressures)) moduli
      in for_range [0..<length pressures] (calculate_moduli_body pressures temperatures)
           (moduli, r))"

section \<open>Bulk average\<close>

text \<open>The comprehension \<^verbatim>\<open>[m.field[idx] for m in moduli_list]\<close>.\<close>

fun column ::
  "(elastic_properties \<Rightarrow> npfloat list) \<Rightarrow> elastic_properties list \<Rightarrow> nat
     \<Rightarrow> error + npfloat list" where
  "column field [] idx = Inr []"
| "column field (m # ms) idx =
     bind (getitem (field m) idx) (\<lambda>v.
     bind (column field ms idx) (\<lambda>vs. Inr (v # vs)))"

definition average_moduli_body ::
  "averaging_scheme \<Rightarrow> elastic_properties list \<Rightarrow> nat \<Rightarrow> elastic_properties
     \<Rightarrow> error + elastic_properties" where
  "average_moduli_body averaging_scheme moduli_list idx result =
     bind (column fraction moduli_list idx) (\<lambda>fractions.
     bind (column V moduli_list idx) (\<lambda>V_ph.
     bind (np_binop fmul V_ph fractions) (\<lambda>V_mol.
     let V_frac = map (\<lambda>v. fdiv v (py_sum V_mol)) V_mol in
     bind (column K moduli_list idx) (\<lambda>K_ph.
     bind (column G moduli_list idx) (\<lambda>G_ph.
     bind (column rho moduli_list idx) (\<lambda>rho_ph.
     bind (setitem (V result) idx (py_sum V_mol)) (\<lambda>V'.
     bind (setitem (K result) idx
             (average_bulk_moduli averaging_scheme V_frac K_ph G_ph)) (\<lambda>K'.
     bind (setitem (G result) idx
             (average_shear_moduli averaging_scheme V_frac K_ph G_ph)) (\<lambda>G'.
     bind (setitem (rho result) idx
             (average_density averaging_scheme V_frac rho_ph)) (\<lambda>rho'.
     bind (setitem (fraction result) idx (Fin 1)) (\<lambda>fraction'.
     Inr (result\<lparr>V := V', rho := rho', K := K', G := G',
                  fraction := fraction'\<rparr>))))))))))))"

definition average_moduli ::
  "elastic_properties list \<Rightarrow> averaging_scheme \<Rightarrow> error + elastic_properties" where
  "average_moduli moduli_list averaging_scheme =
     bind (getitem moduli_list 0) (\<lambda>m0.
     let n_pressures = length (V m0);
         result = set_size elastic_properties_init n_pressures
     in for_range [0..<n_pressures] (average_moduli_body averaging_scheme moduli_list)
          result)"

section \<open>Attenuation correction\<close>

text \<open>
  \<^verbatim>\<open>apply_attenuation_correction\<close>; the pointwise \<^verbatim>\<open>seismic.attenuation_correction\<close>
  is the parameter \<open>attenuation_correction\<close>.
\<close>

definition apply_attenuation_correction_body ::
  "(npfloat \<Rightarrow> npfloat \<Rightarrow> npfloat \<Rightarrow> npfloat \<Rightarrow> npfloat \<Rightarrow> npfloat \<times> npfloat \<times> npfloat)
     \<Rightarrow> npfloat list \<Rightarrow> npfloat list \<Rightarrow> npfloat list \<Rightarrow> npfloat \<Rightarrow> npfloat \<Rightarrow> nat
     \<Rightarrow> npfloat list \<times> npfloat list \<times> npfloat list
     \<Rightarrow> error + (npfloat list \<times> npfloat list \<times> npfloat list)" where
  "apply_attenuation_correction_body attenuation_correction v_p v_s v_phi Qs Qphi i s =
     (case s of (ret_v_p, ret_v_s, ret_v_phi) \<Rightarrow>
        bind (getitem v_p i) (\<lambda>a.
        bind (getitem v_s i) (\<lambda>b.
        bind (getitem v_phi i) (\<lambda>c.
        case attenuation_correction a b c Qs Qphi of (a', b', c') \<Rightarrow>
        bind (setitem ret_v_p i a') (\<lambda>ret_v_p'.
        bind (setitem ret_v_s i b') (\<lambda>ret_v_s'.
        bind (setitem ret_v_phi i c') (\<lambda>ret_v_phi'.
        Inr (ret_v_p', ret_v_s', ret_v_phi'))))))))"

definition apply_attenuation_correction ::
  "(npfloat \<Rightarrow> npfloat \<Rightarrow> npfloat \<Rightarrow> npfloat \<Rightarrow> npfloat \<Rightarrow> npfloat \<times> npfloat \<times> npfloat)
     \<Rightarrow> npfloat list \<Rightarrow> npfloat list \<Rightarrow> npfloat list \<Rightarrow> npfloat \<Rightarrow> npfloat
     \<Rightarrow> error + (npfloat list \<times> npfloat list \<times> npfloat list)" where
  "apply_attenuation_correction attenuation_correction v_p v_s v_phi Qs Qphi =
     (let len = length v_p in
      for_range [0..<len]
        (apply_attenuation_correction_body attenuation_correction v_p v_s v_phi Qs Qphi)
        (np_zeros len, np_zeros len, np_zeros len))"

section \<open>Misfit scores\<close>

text \<open>
  \<^verbatim>\<open>scipy.integrate.trapz(y, x)\<close> on one-dimensional arrays:
  \<^verbatim>\<open>sum(diff(x) * (y[1:] + y[:-1]) / 2.0)\<close>, with numpy's broadcasting.
\<close>

definition np_diff :: "npfloat list \<Rightarrow> npfloat list" where
  "np_diff x = map2 (\<lambda>a b. fsub b a) (butlast x) (tl x)"

definition trapz :: "npfloat list \<Rightarrow> npfloat list \<Rightarrow> error + npfloat" where
  "trapz y x =
     bind (np_binop fadd (tl y) (butlast y)) (\<lambda>s.
     bind (np_binop fmul (np_diff x) s) (\<lambda>p.
     Inr (np_sum (map (\<lambda>v. fdiv v (Fin 2)) p))))"

text \<open>
  \<^verbatim>\<open>l2\<close>: the squared difference of the two profiles, the depth span
  \<^verbatim>\<open>x[-1] - x[0]\<close>, the statement \<^verbatim>\<open>assert(length>0)\<close> (assertions enabled, as by
  default), and the integral divided by the span.
\<close>

definition l2 :: "npfloat list \<Rightarrow> npfloat list \<Rightarrow> npfloat list \<Rightarrow> error + npfloat" where
  "l2 x funca funcb =
     bind (np_binop fsub funca funcb) (\<lambda>diff.
     bind (np_binop fmul diff diff) (\<lambda>diff.
     bind (getitem_last x) (\<lambda>x_last.
     bind (getitem x 0) (\<lambda>x_first.
     let len = fsub x_last x_first in
     if \<not> fgt len (Fin 0) then Inl AssertionError
     else bind (trapz diff x) (\<lambda>integral. Inr (fdiv integral len))))))"

text \<open>
  \<^verbatim>\<open>compare_l2\<close> and \<^verbatim>\<open>compare_chifactor\<close> score the density, Vphi and Vs in this
  order and return the three scores; the total they also compute is not returned.
\<close>

definition compare_l2 ::
  "npfloat list \<Rightarrow> npfloat list \<Rightarrow> npfloat list \<Rightarrow> npfloat list \<Rightarrow> npfloat list
     \<Rightarrow> npfloat list \<Rightarrow> npfloat list \<Rightarrow> error + (npfloat \<times> npfloat \<times> npfloat)" where
  "compare_l2 depth mat_vs mat_vphi mat_rho seis_vs seis_vphi seis_rho =
     bind (l2 depth mat_rho seis_rho) (\<lambda>rho_err_tot.
     bind (l2 depth mat_vphi seis_vphi) (\<lambda>vphi_err_tot.
     bind (l2 depth mat_vs seis_vs) (\<lambda>vs_err_tot.
     Inr (rho_err_tot, vphi_err_tot, vs_err_tot))))"

text \<open>
  \<^verbatim>\<open>chi_factor\<close>: the array \<^verbatim>\<open>err\<close> is filled in a loop over \<^verbatim>\<open>range(len(calc))\<close>,
  each cell with \<^verbatim>\<open>pow((calc[i]-obs[i])/(0.01*np.mean(obs)),2.)\<close>; the result is
  \<^verbatim>\<open>np.sum(err)/len(err)\<close>.  The first argument stands for \<^verbatim>\<open>np.mean\<close>.
\<close>

definition chi_factor_body ::
  "(npfloat list \<Rightarrow> npfloat) \<Rightarrow> npfloat list \<Rightarrow> npfloat list \<Rightarrow> nat \<Rightarrow> npfloat list
     \<Rightarrow> error + npfloat list" where
  "chi_factor_body np_mean calc obs i err =
     bind (getitem calc i) (\<lambda>c.
     bind (getitem obs i) (\<lambda>ob.
     setitem err i (pow_2 (fdiv (fsub c ob) (fmul (Fin 0.01) (np_mean obs))))))"

definition chi_factor ::
  "(npfloat list \<Rightarrow> npfloat) \<Rightarrow> npfloat list \<Rightarrow> npfloat list \<Rightarrow> error + npfloat" where
  "chi_factor np_mean calc obs =
     bind (for_range [0..<length calc] (chi_factor_body np_mean calc obs)
             (np_empty_like calc))
       (\<lambda>err. Inr (fdiv (np_sum err) (Fin (real (length err)))))"

definition compare_chifactor ::
  "(npfloat list \<Rightarrow> npfloat) \<Rightarrow> npfloat list \<Rightarrow> npfloat list \<Rightarrow> npfloat list
     \<Rightarrow> npfloat list \<Rightarrow> npfloat list \<Rightarrow> npfloat list
     \<Rightarrow> error + (npfloat \<times> npfloat \<times> npfloat)" where
  "compare_chifactor np_mean mat_vs mat_vphi mat_rho seis_vs seis_vphi seis_rho =
     bind (chi_factor np_mean mat_rho seis_rho) (\<lambda>rho_err_tot.
     bind (chi_factor np_mean mat_vphi seis_vphi) (\<lambda>vphi_err_tot.
     bind (chi_factor np_mean mat_vs seis_vs) (\<lambda>vs_err_tot.
     Inr (rho_err_tot, vphi_err_tot, vs_err_tot))))"

section \<open>Auxiliary definitions for the proofs\<close>

text \<open>The three velocities of \<^verbatim>\<open>compute_velocities\<close> at one index, as the loop body computes them.\<close>

definition vs_at :: "elastic_properties \<Rightarrow> nat \<Rightarrow> npfloat" where
  "vs_at m i = np_sqrt (fdiv (G m ! i) (rho m ! i))"

definition vp_at :: "elastic_properties \<Rightarrow> nat \<Rightarrow> npfloat" where
  "vp_at m i =
     np_sqrt (fdiv (fadd (K m ! i) (fmul (fdiv (Fin 4) (Fin 3)) (G m ! i))) (rho m ! i))"

definition vphi_at :: "elastic_properties \<Rightarrow> nat \<Rightarrow> npfloat" where
  "vphi_at m i = np_sqrt (fdiv (K m ! i) (rho m ! i))"

text \<open>A correction function for the examples: it returns the three velocities unchanged.\<close>

definition no_correction ::
  "npfloat \<Rightarrow> npfloat \<Rightarrow> npfloat \<Rightarrow> npfloat \<Rightarrow> npfloat \<Rightarrow> npfloat \<times> npfloat \<times> npfloat" where
  "no_correction v_p v_s v_phi Qs Qphi = (v_p, v_s, v_phi)"

text \<open>A record whose five arrays all have \<open>n\<close> cells.\<close>

definition sized :: "elastic_properties \<Rightarrow> nat \<Rightarrow> bool" where
  "sized m n \<longleftrightarrow>
     length (V m) = n \<and> length (rho m) = n \<and> length (K m) = n \<and> length (G m) = n \<and>
     length (fraction m) = n"

text \<open>
  The loop invariant of \<^verbatim>\<open>apply_attenuation_correction\<close>: the three result arrays keep
  the length of \<open>v_p\<close> and their first \<open>k\<close> cells hold the corrected values.
\<close>

definition aac_inv ::
  "(npfloat \<Rightarrow> npfloat \<Rightarrow> npfloat \<Rightarrow> npfloat \<Rightarrow> npfloat \<Rightarrow> npfloat \<times> npfloat \<times> npfloat)
     \<Rightarrow> npfloat list \<Rightarrow> npfloat list \<Rightarrow> npfloat list \<Rightarrow> npfloat \<Rightarrow> npfloat \<Rightarrow> nat
     \<Rightarrow> npfloat list \<times> npfloat list \<times> npfloat list \<Rightarrow> bool" where
  "aac_inv f v_p v_s v_phi Qs Qphi k s =
     (case s of (a, b, c) \<Rightarrow>
        length a = length v_p \<and> length b = length v_p \<and> length c = length v_p \<and>
        (\<forall>i<k. (a ! i, b ! i, c ! i) = f (v_p ! i) (v_s ! i) (v_phi ! i) Qs Qphi))"

text \<open>
  Modelled from the spec: the module \<^verbatim>\<open>averaging_schemes\<close> is not among the sources.
  The spec describes the Voigt scheme as the arithmetic mixing rule; its bulk modulus is
  the arithmetic mean of the bulk moduli of the phases weighted by their volume
  fractions.
\<close>

definition voigt_average_bulk_moduli ::
  "npfloat list \<Rightarrow> npfloat list \<Rightarrow> npfloat list \<Rightarrow> npfloat" where
  "voigt_average_bulk_moduli volume_fractions K_ph G_ph = np_sum (map2 fmul volume_fractions K_ph)"

text \<open>
  A scheme for the examples: the weighted arithmetic mean in each of the three
  functions.
\<close>

definition example_scheme :: averaging_scheme where
  "example_scheme =
     \<lparr>average_bulk_moduli = voigt_average_bulk_moduli,
      average_shear_moduli = (\<lambda>volume_fractions K_ph G_ph. np_sum (map2 fmul volume_fractions G_ph)),
      average_density = (\<lambda>volume_fractions rho_ph. np_sum (map2 fmul volume_fractions rho_ph))\<rparr>"

text \<open>A mineral whose four properties do not depend on the state.\<close>

definition constant_mineral :: "real \<Rightarrow> real \<Rightarrow> real \<Rightarrow> real \<Rightarrow> mineral" where
  "constant_mineral v mass k g =
     \<lparr>molar_volume = (\<lambda>pressure temperature. Inr (Fin v)),
      molar_mass = (\<lambda>pressure temperature. Inr (Fin mass)),
      adiabatic_bulk_modulus = (\<lambda>pressure temperature. Inr (Fin k)),
      shear_modulus = (\<lambda>pressure temperature. Inr (Fin g))\<rparr>"

text \<open>
  The rock of the example of the spec: two phases with fractions 0.5 and 0.5, molar
  volumes \<open>1e-5\<close> and \<open>2e-5\<close>, bulk moduli \<open>200e9\<close> and \<open>100e9\<close>, shear moduli
  \<open>100e9\<close> and \<open>50e9\<close>; the molar masses 0.04 and 0.06 give the densities 4000
  and 3000.
\<close>

definition example_rock :: rock where
  "example_rock =
     \<lparr>phases =
        [\<lparr>ph_fraction = Fin (1 / 2),
          ph_mineral = constant_mineral (1 / 100000) (4 / 100) 200000000000 100000000000\<rparr>,
         \<lparr>ph_fraction = Fin (1 / 2),
          ph_mineral = constant_mineral (2 / 100000) (6 / 100) 100000000000 50000000000\<rparr>],
      state = None\<rparr>"

text \<open>
  The loop invariant of \<^verbatim>\<open>calculate_moduli\<close> on a rock without phases: the list of
  records is empty and the rock is at the state of the last point visited.
\<close>

definition no_phases_inv ::
  "rock \<Rightarrow> npfloat list \<Rightarrow> npfloat list \<Rightarrow> nat \<Rightarrow> elastic_properties list \<times> rock \<Rightarrow> bool" where
  "no_phases_inv r ps ts k s \<longleftrightarrow>
     s = ([], if k = 0 then r else set_state r (ps ! (k - 1)) (ts ! (k - 1)))"

text \<open>
  What \<^verbatim>\<open>average_moduli\<close> computes at the index \<open>i\<close>: the columns of the phases,
  the molar-volume contributions, the volume fractions, and the five cells of the bulk
  record.
\<close>

definition column_at ::
  "(elastic_properties \<Rightarrow> npfloat list) \<Rightarrow> elastic_properties list \<Rightarrow> nat \<Rightarrow> npfloat list" where
  "column_at field ms i = map (\<lambda>m. field m ! i) ms"

definition V_mol_at :: "elastic_properties list \<Rightarrow> nat \<Rightarrow> npfloat list" where
  "V_mol_at ms i = map (\<lambda>m. fmul (V m ! i) (fraction m ! i)) ms"

definition V_frac_at :: "elastic_properties list \<Rightarrow> nat \<Rightarrow> npfloat list" where
  "V_frac_at ms i = map (\<lambda>v. fdiv v (py_sum (V_mol_at ms i))) (V_mol_at ms i)"

definition bulk_at ::
  "averaging_scheme \<Rightarrow> elastic_properties list \<Rightarrow> elastic_properties \<Rightarrow> nat \<Rightarrow> bool" where
  "bulk_at sch ms b i \<longleftrightarrow>
     V b ! i = py_sum (V_mol_at ms i) \<and>
     K b ! i = average_bulk_moduli sch (V_frac_at ms i) (column_at K ms i) (column_at G ms i) \<and>
     G b ! i = average_shear_moduli sch (V_frac_at ms i) (column_at K ms i) (column_at G ms i) \<and>
     rho b ! i = average_density sch (V_frac_at ms i) (column_at rho ms i) \<and>
     fraction b ! i = Fin 1"

text \<open>
  The misfits in the words of the spec, over real numbers.  The trapezoidal rule for
  samples \<open>ys\<close> at the points \<open>xs\<close>: the sum over consecutive points of the width
  times the mean of the two samples.
\<close>

fun trapezoid :: "real list \<Rightarrow> real list \<Rightarrow> real" where
  "trapezoid (x0 # x1 # xs) (y0 # y1 # ys) =
     (x1 - x0) * (y0 + y1) / 2 + trapezoid (x1 # xs) (y1 # ys)"
| "trapezoid xs ys = 0"

text \<open>
  The L2 misfit: the trapezoidal integral over depth of the squared pointwise
  difference, divided by the depth span.
\<close>

definition l2_misfit :: "real list \<Rightarrow> real list \<Rightarrow> real list \<Rightarrow> real" where
  "l2_misfit depth calc obs =
     trapezoid depth (map2 (\<lambda>c ob. (c - ob)\<^sup>2) calc obs) / (last depth - hd depth)"

text \<open>
  The chi factor for an observed mean \<open>m\<close>: the mean over the points of the squared
  difference relative to 1% of \<open>m\<close>.
\<close>

definition chi_misfit :: "real \<Rightarrow> real list \<Rightarrow> real list \<Rightarrow> real" where
  "chi_misfit m calc obs =
     sum_list (map2 (\<lambda>c ob. ((c - ob) / (0.01 * m))\<^sup>2) calc obs) / real (length calc)"

text \<open>The cell \<open>i\<close> of the array \<^verbatim>\<open>err\<close> of \<^verbatim>\<open>chi_factor\<close>, as the loop body computes it.\<close>

definition chi_err ::
  "(npfloat list \<Rightarrow> npfloat) \<Rightarrow> npfloat list \<Rightarrow> npfloat list \<Rightarrow> nat \<Rightarrow> npfloat" where
  "chi_err np_mean calc obs i =
     pow_2 (fdiv (fsub (calc ! i) (obs ! i)) (fmul (Fin 0.01) (np_mean obs)))"

text \<open>
  A mean for the examples: the sum divided by the number of elements, in exact
  arithmetic.  On the arrays of the examples below (\<open>[0]\<close>, \<open>[1, 3]\<close>, \<open>[1, -1]\<close>)
  no step of the float64 computation rounds, and \<^verbatim>\<open>np.mean\<close> returns this value.
\<close>

definition exact_mean :: "npfloat list \<Rightarrow> npfloat" where
  "exact_mean xs = fdiv (np_sum xs) (Fin (real (length xs)))"

section \<open>Loops\<close>

lemma for_range_append:
  "for_range (xs @ ys) body s = bind (for_range xs body s) (for_range ys body)"
  by (induction xs arbitrary: s) (auto simp: bind_def split: sum.splits)

lemma for_range_inv:
  assumes "I 0 s"
    and "\<And>i t. i < n \<Longrightarrow> I i t \<Longrightarrow> \<exists>t'. body i t = Inr t' \<and> I (Suc i) t'"
  shows "\<exists>s'. for_range [0..<n] body s = Inr s' \<and> I n s'"
  using assms(2)
proof (induction n)
  case 0
  then show ?case using assms(1) by simp
next
  case (Suc n)
  then obtain t where t: "for_range [0..<n] body s = Inr t" "I n t"
    by (metis less_Suc_eq)
  from Suc.prems[of n t] t obtain t' where "body n t = Inr t'" "I (Suc n) t'" by auto
  with t show ?case by (simp add: for_range_append bind_def)
qed

lemma for_range_fail:
  assumes "k < n" and "I 0 s"
    and "\<And>i t. i < k \<Longrightarrow> I i t \<Longrightarrow> \<exists>t'. body i t = Inr t' \<and> I (Suc i) t'"
    and "\<And>t. I k t \<Longrightarrow> body k t = Inl e"
  shows "for_range [0..<n] body s = Inl e"
proof -
  have "\<exists>t. for_range [0..<k] body s = Inr t \<and> I k t"
    using assms(2,3) by (rule for_range_inv)
  then obtain t where t: "for_range [0..<k] body s = Inr t" "I k t" by blast
  from \<open>k < n\<close> have "[0..<n] = [0..<k] @ k # [Suc k..<n]"
    by (metis less_imp_add_positive upt_add_eq_append upt_conv_Cons zero_le le_add1 add.commute)
  with t assms(4)[OF t(2)] show ?thesis
    by (simp add: for_range_append bind_def)
qed

lemma bind_eq_Inr: "bind m f = Inr y \<longleftrightarrow> (\<exists>x. m = Inr x \<and> f x = Inr y)"
  by (cases m) (simp_all add: bind_def)

lemma getitem_eq_Inr: "getitem xs i = Inr v \<longleftrightarrow> i < length xs \<and> v = xs ! i"
  by (auto simp: getitem_def)

lemma setitem_eq_Inr: "setitem xs i v = Inr ys \<longleftrightarrow> i < length xs \<and> ys = xs[i := v]"
  by (auto simp: setitem_def)

lemma for_range_preserves:
  assumes "for_range ns body s = Inr s'" and "P s"
    and "\<And>i t t'. P t \<Longrightarrow> body i t = Inr t' \<Longrightarrow> P t'"
  shows "P s'"
  using assms(1,2)
proof (induction ns arbitrary: s)
  case Nil
  then show ?case by simp
next
  case (Cons i ns)
  from Cons.prems(1) obtain t where t: "body i s = Inr t" "for_range ns body t = Inr s'"
    by (auto split: sum.splits)
  from assms(3)[OF Cons.prems(2) t(1)] have "P t" .
  with Cons.IH t(2) show ?case by blast
qed

section \<open>Properties of the velocities\<close>

lemma compute_velocities_body_step:
  assumes "i < length (G m)" "i < length (K m)" "i < length (rho m)"
    and "i < length a" "i < length b" "i < length c"
  shows "compute_velocities_body m i (a, b, c) =
           Inr (a[i := vs_at m i], b[i := vp_at m i], c[i := vphi_at m i])"
  using assms
  by (simp add: compute_velocities_body_def bind_def getitem_def setitem_def
      vs_at_def vp_at_def vphi_at_def)

lemma compute_velocities_general:
  assumes "length (V m) \<le> length (G m)" "length (V m) \<le> length (K m)"
    and "length (V m) \<le> length (rho m)"
  shows "\<exists>vp vs vphi. compute_velocities m = Inr (vp, vs, vphi) \<and>
           length vp = length (V m) \<and> length vs = length (V m) \<and>
           length vphi = length (V m) \<and>
           (\<forall>i<length (V m). vs ! i = vs_at m i \<and> vp ! i = vp_at m i \<and> vphi ! i = vphi_at m i)"
proof -
  define n where "n = length (V m)"
  define I where "I = (\<lambda>k (s :: npfloat list \<times> npfloat list \<times> npfloat list).
     case s of (a, b, c) \<Rightarrow> length a = n \<and> length b = n \<and> length c = n \<and>
       (\<forall>i<k. a ! i = vs_at m i \<and> b ! i = vp_at m i \<and> c ! i = vphi_at m i))"
  have init: "I 0 (np_ndarray n, np_ndarray n, np_ndarray n)"
    by (simp add: I_def np_ndarray_def)
  have step: "\<exists>t'. compute_velocities_body m i t = Inr t' \<and> I (Suc i) t'"
    if "i < n" "I i t" for i t
  proof -
    obtain a b c where t: "t = (a, b, c)" by (cases t) auto
    from that t have len: "length a = n" "length b = n" "length c = n"
      and old: "\<forall>j<i. a ! j = vs_at m j \<and> b ! j = vp_at m j \<and> c ! j = vphi_at m j"
      by (auto simp: I_def)
    from \<open>i < n\<close> assms have "i < length (G m)" "i < length (K m)" "i < length (rho m)"
      by (auto simp: n_def)
    with len \<open>i < n\<close>
    have "compute_velocities_body m i (a, b, c) =
            Inr (a[i := vs_at m i], b[i := vp_at m i], c[i := vphi_at m i])"
      by (intro compute_velocities_body_step) auto
    moreover have "I (Suc i) (a[i := vs_at m i], b[i := vp_at m i], c[i := vphi_at m i])"
      using len old \<open>i < n\<close> by (auto simp: I_def less_Suc_eq nth_list_update)
    ultimately show ?thesis using t by auto
  qed
  have "\<exists>s'. for_range [0..<n] (compute_velocities_body m)
      (np_ndarray n, np_ndarray n, np_ndarray n) = Inr s' \<and> I n s'"
    using init step by (rule for_range_inv)
  then obtain s' where s': "for_range [0..<n] (compute_velocities_body m)
      (np_ndarray n, np_ndarray n, np_ndarray n) = Inr s'" "I n s'"
    by blast
  obtain a b c where abc: "s' = (a, b, c)" by (cases s') auto
  with s' show ?thesis
    by (auto simp: compute_velocities_def bind_def n_def[symmetric] I_def)
qed

lemma at_finite:
  assumes "K m ! i = Fin k" "G m ! i = Fin g" "rho m ! i = Fin r" "0 < r"
  shows "vs_at m i = (if g / r < 0 then NaN else Fin (sqrt (g / r)))"
    and "vp_at m i = (if (k + 4 / 3 * g) / r < 0 then NaN else Fin (sqrt ((k + 4 / 3 * g) / r)))"
    and "vphi_at m i = (if k / r < 0 then NaN else Fin (sqrt (k / r)))"
  using assms by (simp_all add: vs_at_def vp_at_def vphi_at_def)

text \<open>
  Claim C2.  On a record of finite values whose density is strictly positive and whose
  moduli are non-negative at every index, \<^verbatim>\<open>compute_velocities\<close> returns three
  sequences of the length of the record with, at every index,
  \<open>Vs = sqrt (G / rho)\<close>, \<open>Vp = sqrt ((K + 4/3 * G) / rho)\<close> and
  \<open>Vphi = sqrt (K / rho)\<close>; when \<open>K = G = 0\<close> at every index, the three
  velocities are 0 at every index.
\<close>

theorem compute_velocities_formulas:
  assumes "K m = map Fin ks" "G m = map Fin gs" "rho m = map Fin rs"
    and "length ks = length (V m)" "length gs = length (V m)" "length rs = length (V m)"
    and "\<forall>i<length (V m). 0 \<le> ks ! i \<and> 0 \<le> gs ! i \<and> 0 < rs ! i"
  shows "\<exists>vp vs vphi. compute_velocities m = Inr (vp, vs, vphi) \<and>
           length vp = length (V m) \<and> length vs = length (V m) \<and>
           length vphi = length (V m) \<and>
           (\<forall>i<length (V m).
              vs ! i = Fin (sqrt (gs ! i / rs ! i)) \<and>
              vp ! i = Fin (sqrt ((ks ! i + 4 / 3 * gs ! i) / rs ! i)) \<and>
              vphi ! i = Fin (sqrt (ks ! i / rs ! i))) \<and>
           ((\<forall>i<length (V m). ks ! i = 0 \<and> gs ! i = 0) \<longrightarrow>
              (\<forall>i<length (V m). vp ! i = Fin 0 \<and> vs ! i = Fin 0 \<and> vphi ! i = Fin 0))"
proof -
  from assms have "length (V m) \<le> length (G m)" "length (V m) \<le> length (K m)"
    "length (V m) \<le> length (rho m)" by simp_all
  from compute_velocities_general[OF this]
  obtain vp vs vphi where res: "compute_velocities m = Inr (vp, vs, vphi)"
    and len: "length vp = length (V m)" "length vs = length (V m)" "length vphi = length (V m)"
    and at: "\<forall>i<length (V m). vs ! i = vs_at m i \<and> vp ! i = vp_at m i \<and> vphi ! i = vphi_at m i"
    by blast
  have formulas: "vs ! i = Fin (sqrt (gs ! i / rs ! i)) \<and>
      vp ! i = Fin (sqrt ((ks ! i + 4 / 3 * gs ! i) / rs ! i)) \<and>
      vphi ! i = Fin (sqrt (ks ! i / rs ! i))" if "i < length (V m)" for i
  proof -
    from that assms have el: "K m ! i = Fin (ks ! i)" "G m ! i = Fin (gs ! i)"
      "rho m ! i = Fin (rs ! i)" by simp_all
    from that assms have sg: "0 \<le> ks ! i" "0 \<le> gs ! i" "0 < rs ! i" by simp_all
    then have "\<not> gs ! i / rs ! i < 0" "\<not> (ks ! i + 4 / 3 * gs ! i) / rs ! i < 0"
      "\<not> ks ! i / rs ! i < 0"
      by (simp_all add: divide_less_0_iff not_less add_nonneg_nonneg)
    with at_finite[OF el sg(3)] at that show ?thesis by simp
  qed
  have zeros: "vp ! i = Fin 0 \<and> vs ! i = Fin 0 \<and> vphi ! i = Fin 0"
    if "i < length (V m)" "\<forall>i<length (V m). ks ! i = 0 \<and> gs ! i = 0" for i
    using formulas[OF that(1)] that by simp
  from res len formulas zeros show ?thesis by blast
qed

text \<open>
  Claim C10.  Under the same conditions (finite values, \<open>K \<ge> 0\<close>, \<open>G \<ge> 0\<close>,
  \<open>rho > 0\<close> at every index) the compressional velocity bounds the other two from
  above at every index: \<open>Vp \<ge> Vs\<close> and \<open>Vp \<ge> Vphi\<close>, in the comparison of the
  floating-point values.
\<close>

theorem compute_velocities_vp_dominates:
  assumes "K m = map Fin ks" "G m = map Fin gs" "rho m = map Fin rs"
    and "length ks = length (V m)" "length gs = length (V m)" "length rs = length (V m)"
    and "\<forall>i<length (V m). 0 \<le> ks ! i \<and> 0 \<le> gs ! i \<and> 0 < rs ! i"
  shows "\<exists>vp vs vphi. compute_velocities m = Inr (vp, vs, vphi) \<and>
           (\<forall>i<length (V m). fge (vp ! i) (vs ! i) \<and> fge (vp ! i) (vphi ! i))"
proof -
  from assms have "length (V m) \<le> length (G m)" "length (V m) \<le> length (K m)"
    "length (V m) \<le> length (rho m)" by simp_all
  from compute_velocities_general[OF this]
  obtain vp vs vphi where res: "compute_velocities m = Inr (vp, vs, vphi)"
    and at: "\<forall>i<length (V m). vs ! i = vs_at m i \<and> vp ! i = vp_at m i \<and> vphi ! i = vphi_at m i"
    by blast
  have "fge (vp ! i) (vs ! i) \<and> fge (vp ! i) (vphi ! i)" if "i < length (V m)" for i
  proof -
    from that assms have el: "K m ! i = Fin (ks ! i)" "G m ! i = Fin (gs ! i)"
      "rho m ! i = Fin (rs ! i)" by simp_all
    from that assms have sg: "0 \<le> ks ! i" "0 \<le> gs ! i" "0 < rs ! i" by simp_all
    then have nn: "\<not> gs ! i / rs ! i < 0" "\<not> (ks ! i + 4 / 3 * gs ! i) / rs ! i < 0"
      "\<not> ks ! i / rs ! i < 0"
      by (simp_all add: divide_less_0_iff not_less add_nonneg_nonneg)
    from sg have "gs ! i \<le> ks ! i + 4 / 3 * gs ! i" "ks ! i \<le> ks ! i + 4 / 3 * gs ! i"
      by simp_all
    with sg have "gs ! i / rs ! i \<le> (ks ! i + 4 / 3 * gs ! i) / rs ! i"
      "ks ! i / rs ! i \<le> (ks ! i + 4 / 3 * gs ! i) / rs ! i"
      by (simp_all add: divide_right_mono)
    then have "sqrt (gs ! i / rs ! i) \<le> sqrt ((ks ! i + 4 / 3 * gs ! i) / rs ! i)"
      "sqrt (ks ! i / rs ! i) \<le> sqrt ((ks ! i + 4 / 3 * gs ! i) / rs ! i)"
      by simp_all
    with at_finite[OF el sg(3)] at that nn show ?thesis by auto
  qed
  with res show ?thesis by blast
qed

text \<open>
  Claim C9, as amended.  \<^verbatim>\<open>compute_velocities\<close> has no check on the sign of what it
  takes the square root of.  On a record of finite values with \<open>rho > 0\<close> it always
  returns three sequences of the length of the record, and at every index where a
  radicand \<open>G / rho\<close>, \<open>(K + 4/3 * G) / rho\<close> or \<open>K / rho\<close> is negative the
  corresponding velocity is NaN.
\<close>

theorem compute_velocities_negative_radicand:
  assumes "K m = map Fin ks" "G m = map Fin gs" "rho m = map Fin rs"
    and "length ks = length (V m)" "length gs = length (V m)" "length rs = length (V m)"
    and "\<forall>i<length (V m). 0 < rs ! i"
  shows "\<exists>vp vs vphi. compute_velocities m = Inr (vp, vs, vphi) \<and>
           length vp = length (V m) \<and> length vs = length (V m) \<and>
           length vphi = length (V m) \<and>
           (\<forall>i<length (V m).
              (gs ! i / rs ! i < 0 \<longrightarrow> vs ! i = NaN) \<and>
              ((ks ! i + 4 / 3 * gs ! i) / rs ! i < 0 \<longrightarrow> vp ! i = NaN) \<and>
              (ks ! i / rs ! i < 0 \<longrightarrow> vphi ! i = NaN))"
proof -
  from assms have "length (V m) \<le> length (G m)" "length (V m) \<le> length (K m)"
    "length (V m) \<le> length (rho m)" by simp_all
  from compute_velocities_general[OF this]
  obtain vp vs vphi where res: "compute_velocities m = Inr (vp, vs, vphi)"
    and len: "length vp = length (V m)" "length vs = length (V m)" "length vphi = length (V m)"
    and at: "\<forall>i<length (V m). vs ! i = vs_at m i \<and> vp ! i = vp_at m i \<and> vphi ! i = vphi_at m i"
    by blast
  have "(gs ! i / rs ! i < 0 \<longrightarrow> vs ! i = NaN) \<and>
      ((ks ! i + 4 / 3 * gs ! i) / rs ! i < 0 \<longrightarrow> vp ! i = NaN) \<and>
      (ks ! i / rs ! i < 0 \<longrightarrow> vphi ! i = NaN)" if "i < length (V m)" for i
  proof -
    from that assms have el: "K m ! i = Fin (ks ! i)" "G m ! i = Fin (gs ! i)"
      "rho m ! i = Fin (rs ! i)" by simp_all
    from that assms have sg: "0 < rs ! i" by simp
    from at_finite[OF el sg] at that show ?thesis by simp
  qed
  with res len show ?thesis by blast
qed

text \<open>The theorem of C2 at a record of two points.\<close>

theorem compute_velocities_formulas_witness:
  "\<exists>vp vs vphi.
     compute_velocities \<lparr>V = [Fin 1, Fin 1], rho = [Fin 1, Fin 2], K = [Fin 4, Fin 0],
                          G = [Fin 0, Fin 0], fraction = [Fin 1, Fin 1]\<rparr> = Inr (vp, vs, vphi) \<and>
     length vp = 2 \<and> length vs = 2 \<and> length vphi = 2 \<and>
     vs ! 0 = Fin 0 \<and> vp ! 0 = Fin 2 \<and> vphi ! 0 = Fin 2 \<and>
     vs ! 1 = Fin 0 \<and> vp ! 1 = Fin 0 \<and> vphi ! 1 = Fin 0"
  using compute_velocities_formulas
    [of "\<lparr>V = [Fin 1, Fin 1], rho = [Fin 1, Fin 2], K = [Fin 4, Fin 0],
          G = [Fin 0, Fin 0], fraction = [Fin 1, Fin 1]\<rparr>" "[4, 0]" "[0, 0]" "[1, 2]"]
  by (auto simp: All_less_Suc numeral_2_eq_2)

text \<open>The theorem of C10 at a record of one point.\<close>

theorem compute_velocities_vp_dominates_witness:
  "\<exists>vp vs vphi.
     compute_velocities \<lparr>V = [Fin 1], rho = [Fin 2], K = [Fin 3],
                          G = [Fin 5], fraction = [Fin 1]\<rparr> = Inr (vp, vs, vphi) \<and>
     fge (vp ! 0) (vs ! 0) \<and> fge (vp ! 0) (vphi ! 0)"
  using compute_velocities_vp_dominates
    [of "\<lparr>V = [Fin 1], rho = [Fin 2], K = [Fin 3],
          G = [Fin 5], fraction = [Fin 1]\<rparr>" "[3]" "[5]" "[2]"]
  by simp

text \<open>The theorem of C9 at a record with a negative shear modulus.\<close>

theorem compute_velocities_negative_radicand_witness:
  "\<exists>vp vs vphi.
     compute_velocities \<lparr>V = [Fin 1], rho = [Fin 1], K = [Fin 1],
                          G = [Fin (- 1)], fraction = [Fin 1]\<rparr> = Inr (vp, vs, vphi) \<and>
     length vp = 1 \<and> length vs = 1 \<and> length vphi = 1 \<and> vs ! 0 = NaN \<and> vp ! 0 = NaN"
  using compute_velocities_negative_radicand
    [of "\<lparr>V = [Fin 1], rho = [Fin 1], K = [Fin 1],
          G = [Fin (- 1)], fraction = [Fin 1]\<rparr>" "[1]" "[- 1]" "[1]"]
  by simp

text \<open>
  Claim C9 as stated fails: with \<open>G = -1\<close>, \<open>K = 1\<close>, \<open>rho = 1\<close> the radicands
  of \<open>Vs\<close> and \<open>Vp\<close> are negative, and the call returns a result, with NaN at
  that index, instead of failing.
\<close>

theorem compute_velocities_nan_counterexample:
  "compute_velocities \<lparr>V = [Fin 1], rho = [Fin 1], K = [Fin 1], G = [Fin (- 1)],
                        fraction = [Fin 1]\<rparr> = Inr ([NaN], [NaN], [Fin 1])"
  by (simp add: compute_velocities_def compute_velocities_body_def bind_def getitem_def
      setitem_def np_ndarray_def)

section \<open>Properties of the attenuation correction\<close>

lemma aac_body_step:
  assumes "i < length v_p" "i < length v_s" "i < length v_phi"
    and "i < length a" "i < length b" "i < length c"
  shows "apply_attenuation_correction_body f v_p v_s v_phi Qs Qphi i (a, b, c) =
           Inr (a[i := fst (f (v_p ! i) (v_s ! i) (v_phi ! i) Qs Qphi)],
                b[i := fst (snd (f (v_p ! i) (v_s ! i) (v_phi ! i) Qs Qphi))],
                c[i := snd (snd (f (v_p ! i) (v_s ! i) (v_phi ! i) Qs Qphi))])"
  using assms
  by (simp add: apply_attenuation_correction_body_def bind_def getitem_def setitem_def
      split: prod.splits)

lemma aac_body_fail:
  assumes "i < length v_p" "\<not> (i < length v_s \<and> i < length v_phi)"
  shows "apply_attenuation_correction_body f v_p v_s v_phi Qs Qphi i s = Inl IndexError"
  using assms
  by (auto simp: apply_attenuation_correction_body_def bind_def getitem_def
      split: prod.splits)

lemma aac_inv_step:
  assumes "i < length v_p" "i < length v_s" "i < length v_phi"
    and "aac_inv f v_p v_s v_phi Qs Qphi i t"
  shows "\<exists>t'. apply_attenuation_correction_body f v_p v_s v_phi Qs Qphi i t = Inr t' \<and>
           aac_inv f v_p v_s v_phi Qs Qphi (Suc i) t'"
proof -
  obtain a b c where t: "t = (a, b, c)" by (cases t) auto
  with assms(4) have len: "length a = length v_p" "length b = length v_p"
    "length c = length v_p"
    and old: "\<forall>j<i. (a ! j, b ! j, c ! j) = f (v_p ! j) (v_s ! j) (v_phi ! j) Qs Qphi"
    by (auto simp: aac_inv_def)
  from assms(1-3) len have "apply_attenuation_correction_body f v_p v_s v_phi Qs Qphi i (a, b, c) =
           Inr (a[i := fst (f (v_p ! i) (v_s ! i) (v_phi ! i) Qs Qphi)],
                b[i := fst (snd (f (v_p ! i) (v_s ! i) (v_phi ! i) Qs Qphi))],
                c[i := snd (snd (f (v_p ! i) (v_s ! i) (v_phi ! i) Qs Qphi))])"
    by (intro aac_body_step) auto
  moreover have "aac_inv f v_p v_s v_phi Qs Qphi (Suc i)
          (a[i := fst (f (v_p ! i) (v_s ! i) (v_phi ! i) Qs Qphi)],
                b[i := fst (snd (f (v_p ! i) (v_s ! i) (v_phi ! i) Qs Qphi))],
                c[i := snd (snd (f (v_p ! i) (v_s ! i) (v_phi ! i) Qs Qphi))])"
    using len old assms(1) by (auto simp: aac_inv_def less_Suc_eq nth_list_update)
  ultimately show ?thesis using t by auto
qed

lemma aac_inv_init:
  "aac_inv f v_p v_s v_phi Qs Qphi 0
     (np_zeros (length v_p), np_zeros (length v_p), np_zeros (length v_p))"
  by (simp add: aac_inv_def np_zeros_def)

text \<open>
  Claim C8, as amended.  \<^verbatim>\<open>apply_attenuation_correction\<close> takes its length from
  \<open>v_p\<close> alone and compares no lengths.  When \<open>v_s\<close> and \<open>v_phi\<close> are at least
  as long as \<open>v_p\<close> it returns three sequences of \<^verbatim>\<open>len(v_p)\<close> cells, each index
  corrected from the values of the three inputs at that index; the cells of a longer
  \<open>v_s\<close> or \<open>v_phi\<close> beyond \<^verbatim>\<open>len(v_p)\<close> are not read.  When \<open>v_s\<close> or
  \<open>v_phi\<close> is shorter than \<open>v_p\<close> the call fails with \<^verbatim>\<open>IndexError\<close>.
\<close>

theorem apply_attenuation_correction_length_of_v_p:
  "(length v_p \<le> length v_s \<and> length v_p \<le> length v_phi \<longrightarrow>
      (\<exists>ret_v_p ret_v_s ret_v_phi.
         apply_attenuation_correction f v_p v_s v_phi Qs Qphi =
           Inr (ret_v_p, ret_v_s, ret_v_phi) \<and>
         length ret_v_p = length v_p \<and> length ret_v_s = length v_p \<and>
         length ret_v_phi = length v_p \<and>
         (\<forall>i<length v_p.
            (ret_v_p ! i, ret_v_s ! i, ret_v_phi ! i) =
              f (v_p ! i) (v_s ! i) (v_phi ! i) Qs Qphi))) \<and>
   (length v_s < length v_p \<or> length v_phi < length v_p \<longrightarrow>
      apply_attenuation_correction f v_p v_s v_phi Qs Qphi = Inl IndexError)"
proof (intro conjI impI)
  assume le: "length v_p \<le> length v_s \<and> length v_p \<le> length v_phi"
  have "\<exists>s'. for_range [0..<length v_p]
          (apply_attenuation_correction_body f v_p v_s v_phi Qs Qphi)
          (np_zeros (length v_p), np_zeros (length v_p), np_zeros (length v_p)) = Inr s' \<and>
        aac_inv f v_p v_s v_phi Qs Qphi (length v_p) s'"
  proof (rule for_range_inv[where I = "aac_inv f v_p v_s v_phi Qs Qphi"])
    show "aac_inv f v_p v_s v_phi Qs Qphi 0
       (np_zeros (length v_p), np_zeros (length v_p), np_zeros (length v_p))"
      by (rule aac_inv_init)
  next
    fix i t assume "i < length v_p" "aac_inv f v_p v_s v_phi Qs Qphi i t"
    with le show "\<exists>t'. apply_attenuation_correction_body f v_p v_s v_phi Qs Qphi i t = Inr t' \<and>
           aac_inv f v_p v_s v_phi Qs Qphi (Suc i) t'"
      by (intro aac_inv_step) auto
  qed
  then show "\<exists>ret_v_p ret_v_s ret_v_phi.
         apply_attenuation_correction f v_p v_s v_phi Qs Qphi =
           Inr (ret_v_p, ret_v_s, ret_v_phi) \<and>
         length ret_v_p = length v_p \<and> length ret_v_s = length v_p \<and>
         length ret_v_phi = length v_p \<and>
         (\<forall>i<length v_p.
            (ret_v_p ! i, ret_v_s ! i, ret_v_phi ! i) =
              f (v_p ! i) (v_s ! i) (v_phi ! i) Qs Qphi)"
    by (auto simp: apply_attenuation_correction_def aac_inv_def)
next
  assume short: "length v_s < length v_p \<or> length v_phi < length v_p"
  define k where "k = min (length v_s) (length v_phi)"
  from short have k: "k < length v_p" by (auto simp: k_def)
  have "for_range [0..<length v_p]
          (apply_attenuation_correction_body f v_p v_s v_phi Qs Qphi)
          (np_zeros (length v_p), np_zeros (length v_p), np_zeros (length v_p)) = Inl IndexError"
  proof (rule for_range_fail[where I = "aac_inv f v_p v_s v_phi Qs Qphi" and k = k])
    show "k < length v_p" by (rule k)
  next
    show "aac_inv f v_p v_s v_phi Qs Qphi 0
       (np_zeros (length v_p), np_zeros (length v_p), np_zeros (length v_p))"
      by (rule aac_inv_init)
  next
    fix i t assume "i < k" "aac_inv f v_p v_s v_phi Qs Qphi i t"
    with k show "\<exists>t'. apply_attenuation_correction_body f v_p v_s v_phi Qs Qphi i t = Inr t' \<and>
           aac_inv f v_p v_s v_phi Qs Qphi (Suc i) t'"
      by (intro aac_inv_step) (auto simp: k_def)
  next
    fix t assume "aac_inv f v_p v_s v_phi Qs Qphi k t"
    show "apply_attenuation_correction_body f v_p v_s v_phi Qs Qphi k t = Inl IndexError"
      using k by (intro aac_body_fail) (auto simp: k_def)
  qed
  then show "apply_attenuation_correction f v_p v_s v_phi Qs Qphi = Inl IndexError"
    by (simp add: apply_attenuation_correction_def)
qed

text \<open>The theorem of C8 at a longer and at a shorter \<open>v_s\<close>.\<close>

theorem apply_attenuation_correction_length_of_v_p_witness:
  "(\<exists>ret_v_p ret_v_s ret_v_phi.
      apply_attenuation_correction no_correction [Fin 1] [Fin 2, Fin 3] [Fin 4] (Fin 100) (Fin 100)
        = Inr (ret_v_p, ret_v_s, ret_v_phi) \<and>
      length ret_v_p = 1 \<and> length ret_v_s = 1 \<and> length ret_v_phi = 1 \<and>
      (ret_v_p ! 0, ret_v_s ! 0, ret_v_phi ! 0) = (Fin 1, Fin 2, Fin 4)) \<and>
   apply_attenuation_correction no_correction [Fin 1, Fin 5] [Fin 2] [Fin 4, Fin 6] (Fin 100) (Fin 100)
     = Inl IndexError"
  using apply_attenuation_correction_length_of_v_p
      [of "[Fin 1]" "[Fin 2, Fin 3]" "[Fin 4]" no_correction "Fin 100" "Fin 100"]
    apply_attenuation_correction_length_of_v_p
      [of "[Fin 1, Fin 5]" "[Fin 2]" "[Fin 4, Fin 6]" no_correction "Fin 100" "Fin 100"]
  by (simp add: no_correction_def)

text \<open>
  Claim C8 as stated fails: with \<open>v_s\<close> of two cells and \<open>v_p\<close>, \<open>v_phi\<close> of
  one cell the call raises nothing and returns sequences of one cell; the second cell
  of \<open>v_s\<close> is dropped.
\<close>

theorem apply_attenuation_correction_truncates_counterexample:
  "apply_attenuation_correction no_correction [Fin 1] [Fin 2, Fin 3] [Fin 4] (Fin 100) (Fin 100)
     = Inr ([Fin 1], [Fin 2], [Fin 4])"
  by (simp add: apply_attenuation_correction_def apply_attenuation_correction_body_def
      bind_def getitem_def setitem_def np_zeros_def no_correction_def)

section \<open>Properties of the moduli of the phases and of the bulk average\<close>

lemma calculate_moduli_inner_sized:
  assumes "calculate_moduli_inner r idx midx ms = Inr ms'"
    and "length ms = k \<and> (\<forall>m\<in>set ms. sized m n)"
  shows "length ms' = k \<and> (\<forall>m\<in>set ms'. sized m n)"
proof -
  from assms(1) obtain m V' rho' K' G' fraction' where
    m: "midx < length ms" "m = ms ! midx"
    and upd: "length V' = length (V m)" "length K' = length (K m)" "length G' = length (G m)"
      "length rho' = length (rho m)" "length fraction' = length (fraction m)"
    and ms': "ms' = ms[midx := m\<lparr>V := V', rho := rho', K := K', G := G', fraction := fraction'\<rparr>]"
    unfolding calculate_moduli_inner_def bind_eq_Inr getitem_eq_Inr setitem_eq_Inr
    by (elim exE conjE) (simp, metis length_list_update)
  from m assms(2) have "sized m n" by auto
  with upd have "sized (m\<lparr>V := V', rho := rho', K := K', G := G', fraction := fraction'\<rparr>) n"
    by (simp add: sized_def)
  with assms(2) ms' show ?thesis
    by (auto dest!: set_update_subset_insert[THEN subsetD])
qed

lemma calculate_moduli_body_sized:
  assumes "calculate_moduli_body ps ts idx s = Inr s'"
    and "length (fst s) = k \<and> (\<forall>m\<in>set (fst s). sized m n)"
  shows "length (fst s') = k \<and> (\<forall>m\<in>set (fst s'). sized m n)"
proof -
  obtain ms r where s: "s = (ms, r)" by (cases s) auto
  with assms(1) obtain p tk ms' where
    loop: "for_range [0..<length ms] (calculate_moduli_inner (set_state r p tk) idx) ms = Inr ms'"
    and s': "s' = (ms', set_state r p tk)"
    by (auto simp: calculate_moduli_body_def bind_eq_Inr Let_def)
  from loop have "length ms' = k \<and> (\<forall>m\<in>set ms'. sized m n)"
  proof (rule for_range_preserves)
    show "length ms = k \<and> (\<forall>m\<in>set ms. sized m n)" using assms(2) s by simp
  next
    fix i t t'
    assume "length t = k \<and> (\<forall>m\<in>set t. sized m n)"
      "calculate_moduli_inner (set_state r p tk) idx i t = Inr t'"
    then show "length t' = k \<and> (\<forall>m\<in>set t'. sized m n)"
      using calculate_moduli_inner_sized by blast
  qed
  with s' show ?thesis by simp
qed

lemma calculate_moduli_sized:
  assumes "calculate_moduli r ps ts = Inr (ms, r')"
  shows "length ms = length (phases r) \<and> (\<forall>m\<in>set ms. sized m (length ps))"
proof -
  let ?init = "map (\<lambda>m. set_size m (length ps)) (map (\<lambda>ph. elastic_properties_init) (phases r))"
  from assms have loop: "for_range [0..<length ps] (calculate_moduli_body ps ts) (?init, r)
      = Inr (ms, r')"
    by (simp add: calculate_moduli_def Let_def)
  have "length (fst (ms, r')) = length (phases r) \<and>
      (\<forall>m\<in>set (fst (ms, r')). sized m (length ps))"
    using loop
  proof (rule for_range_preserves)
    show "length (fst (?init, r)) = length (phases r) \<and>
        (\<forall>m\<in>set (fst (?init, r)). sized m (length ps))"
      by (auto simp: sized_def set_size_def np_ndarray_def)
  next
    fix i t t'
    assume "length (fst t) = length (phases r) \<and> (\<forall>m\<in>set (fst t). sized m (length ps))"
      "calculate_moduli_body ps ts i t = Inr t'"
    then show "length (fst t') = length (phases r) \<and> (\<forall>m\<in>set (fst t'). sized m (length ps))"
      using calculate_moduli_body_sized by blast
  qed
  then show ?thesis by simp
qed

lemma average_moduli_body_sized:
  assumes "average_moduli_body sch ms idx res = Inr res'" and "sized res n"
  shows "sized res' n"
proof -
  from assms(1) obtain V' rho' K' G' fraction' where
    upd: "length V' = length (V res)" "length K' = length (K res)"
      "length G' = length (G res)" "length rho' = length (rho res)"
      "length fraction' = length (fraction res)"
    and res': "res' = res\<lparr>V := V', rho := rho', K := K', G := G', fraction := fraction'\<rparr>"
    unfolding average_moduli_body_def bind_eq_Inr setitem_eq_Inr Let_def
    by (elim exE conjE) (simp, metis length_list_update)
  with assms(2) show ?thesis by (simp add: sized_def)
qed

lemma average_moduli_sized:
  assumes "average_moduli ms sch = Inr b"
  shows "ms \<noteq> [] \<and> sized b (length (V (ms ! 0)))"
proof -
  let ?n = "length (V (ms ! 0))"
  from assms have ne: "ms \<noteq> []"
    and loop: "for_range [0..<?n] (average_moduli_body sch ms)
        (set_size elastic_properties_init ?n) = Inr b"
    by (auto simp: average_moduli_def bind_eq_Inr getitem_eq_Inr Let_def)
  from loop have "sized b ?n"
  proof (rule for_range_preserves)
    show "sized (set_size elastic_properties_init ?n) ?n"
      by (simp add: sized_def set_size_def np_ndarray_def)
  next
    fix i t t'
    assume "sized t ?n" "average_moduli_body sch ms i t = Inr t'"
    then show "sized t' ?n" using average_moduli_body_sized by blast
  qed
  with ne show ?thesis by simp
qed

text \<open>
  Claim C3.  Every record returned by \<^verbatim>\<open>calculate_moduli\<close> (one per phase of the
  rock) has its five arrays \<open>V\<close>, \<open>rho\<close>, \<open>K\<close>, \<open>G\<close>, \<open>fraction\<close> of the
  length of \<open>pressures\<close>.  The record returned by \<^verbatim>\<open>average_moduli\<close> has its five
  arrays of the length of the \<open>V\<close> of the first record of its input, which is the
  length of \<open>pressures\<close> when the input comes from \<^verbatim>\<open>calculate_moduli\<close>.  The
  lengths are those set by \<^verbatim>\<open>set_size\<close>: every step of the two loops keeps them.
\<close>

theorem elastic_properties_lengths:
  "(calculate_moduli r pressures temperatures = Inr (moduli, r') \<longrightarrow>
      length moduli = length (phases r) \<and>
      (\<forall>m\<in>set moduli.
         length (V m) = length pressures \<and> length (rho m) = length pressures \<and>
         length (K m) = length pressures \<and> length (G m) = length pressures \<and>
         length (fraction m) = length pressures)) \<and>
   (average_moduli moduli_list averaging_scheme = Inr bulk \<longrightarrow>
      moduli_list \<noteq> [] \<and>
      length (V bulk) = length (V (moduli_list ! 0)) \<and>
      length (rho bulk) = length (V (moduli_list ! 0)) \<and>
      length (K bulk) = length (V (moduli_list ! 0)) \<and>
      length (G bulk) = length (V (moduli_list ! 0)) \<and>
      length (fraction bulk) = length (V (moduli_list ! 0))) \<and>
   (calculate_moduli r pressures temperatures = Inr (moduli, r') \<and>
    average_moduli moduli averaging_scheme = Inr bulk' \<longrightarrow>
      length (V bulk') = length pressures \<and> length (rho bulk') = length pressures \<and>
      length (K bulk') = length pressures \<and> length (G bulk') = length pressures \<and>
      length (fraction bulk') = length pressures)"
proof (intro conjI impI)
  assume "calculate_moduli r pressures temperatures = Inr (moduli, r')"
  from calculate_moduli_sized[OF this]
  show "length moduli = length (phases r)"
    and "\<forall>m\<in>set moduli.
         length (V m) = length pressures \<and> length (rho m) = length pressures \<and>
         length (K m) = length pressures \<and> length (G m) = length pressures \<and>
         length (fraction m) = length pressures"
    by (simp_all add: sized_def)
next
  assume "average_moduli moduli_list averaging_scheme = Inr bulk"
  from average_moduli_sized[OF this]
  show "moduli_list \<noteq> []"
    and "length (V bulk) = length (V (moduli_list ! 0))"
    and "length (rho bulk) = length (V (moduli_list ! 0))"
    and "length (K bulk) = length (V (moduli_list ! 0))"
    and "length (G bulk) = length (V (moduli_list ! 0))"
    and "length (fraction bulk) = length (V (moduli_list ! 0))"
    by (simp_all add: sized_def)
next
  assume a: "calculate_moduli r pressures temperatures = Inr (moduli, r') \<and>
    average_moduli moduli averaging_scheme = Inr bulk'"
  from average_moduli_sized[of moduli averaging_scheme bulk'] a
  have ne: "moduli \<noteq> []" and b: "sized bulk' (length (V (moduli ! 0)))" by simp_all
  from ne have "moduli ! 0 \<in> set moduli" by simp
  with calculate_moduli_sized[of r pressures temperatures moduli r'] a
  have "sized (moduli ! 0) (length pressures)" by blast
  with b have "sized bulk' (length pressures)" by (simp add: sized_def)
  then show "length (V bulk') = length pressures" "length (rho bulk') = length pressures"
    "length (K bulk') = length pressures" "length (G bulk') = length pressures"
    "length (fraction bulk') = length pressures"
    by (simp_all add: sized_def)
qed

lemma example_rock_moduli:
  "calculate_moduli example_rock [p] [t] =
     Inr ([\<lparr>V = [Fin (1 / 200000)], rho = [Fin 4000], K = [Fin 200000000000],
             G = [Fin 100000000000], fraction = [Fin (1 / 2)]\<rparr>,
           \<lparr>V = [Fin (1 / 100000)], rho = [Fin 3000], K = [Fin 100000000000],
             G = [Fin 50000000000], fraction = [Fin (1 / 2)]\<rparr>],
          example_rock\<lparr>state := Some (p, t)\<rparr>)"
  by (simp add: calculate_moduli_def calculate_moduli_body_def calculate_moduli_inner_def
      example_rock_def constant_mineral_def set_state_def eos_def py_float_div_def
      elastic_properties_init_def set_size_def np_ndarray_def bind_def getitem_def setitem_def)

lemma example_rock_average:
  "average_moduli
     [\<lparr>V = [Fin (1 / 200000)], rho = [Fin 4000], K = [Fin 200000000000],
             G = [Fin 100000000000], fraction = [Fin (1 / 2)]\<rparr>,
           \<lparr>V = [Fin (1 / 100000)], rho = [Fin 3000], K = [Fin 100000000000],
             G = [Fin 50000000000], fraction = [Fin (1 / 2)]\<rparr>] sch =
   Inr \<lparr>V = [Fin (3 / 400000)],
        rho = [average_density sch [Fin (1 / 3), Fin (2 / 3)] [Fin 4000, Fin 3000]],
        K = [average_bulk_moduli sch [Fin (1 / 3), Fin (2 / 3)]
               [Fin 200000000000, Fin 100000000000] [Fin 100000000000, Fin 50000000000]],
        G = [average_shear_moduli sch [Fin (1 / 3), Fin (2 / 3)]
               [Fin 200000000000, Fin 100000000000] [Fin 100000000000, Fin 50000000000]],
        fraction = [Fin 1]\<rparr>"
  by (simp add: average_moduli_def average_moduli_body_def np_binop_def py_sum_def Let_def
      elastic_properties_init_def set_size_def np_ndarray_def bind_def getitem_def setitem_def)

text \<open>
  Claim C4.  For the example rock, at any single pressure and temperature,
  \<^verbatim>\<open>calculate_moduli\<close> followed by \<^verbatim>\<open>average_moduli\<close> hands the volume fractions
  \<open>[1/3, 2/3]\<close> to the averaging scheme, whatever the scheme is, with the bulk
  moduli \<open>[200e9, 100e9]\<close>, the shear moduli \<open>[100e9, 50e9]\<close> and the densities
  \<open>[4000, 3000]\<close>; with the Voigt average of the bulk modulus the bulk \<open>K\<close> is
  \<open>400e9 / 3\<close>.
\<close>

theorem example_rock_voigt:
  "bind (calculate_moduli example_rock [p] [t]) (\<lambda>(moduli, r). average_moduli moduli sch) =
     Inr \<lparr>V = [Fin (3 / 400000)],
          rho = [average_density sch [Fin (1 / 3), Fin (2 / 3)] [Fin 4000, Fin 3000]],
          K = [average_bulk_moduli sch [Fin (1 / 3), Fin (2 / 3)]
                 [Fin 200000000000, Fin 100000000000] [Fin 100000000000, Fin 50000000000]],
          G = [average_shear_moduli sch [Fin (1 / 3), Fin (2 / 3)]
                 [Fin 200000000000, Fin 100000000000] [Fin 100000000000, Fin 50000000000]],
          fraction = [Fin 1]\<rparr> \<and>
   bind (bind (calculate_moduli example_rock [p] [t])
           (\<lambda>(moduli, r).
              average_moduli moduli (sch\<lparr>average_bulk_moduli := voigt_average_bulk_moduli\<rparr>)))
     (\<lambda>bulk. Inr (K bulk)) = Inr [Fin (400000000000 / 3)]"
  by (simp add: example_rock_moduli example_rock_average bind_def
      voigt_average_bulk_moduli_def np_sum_def)

text \<open>The theorem of C3 at the example rock, one evaluation point.\<close>

theorem elastic_properties_lengths_witness:
  "\<exists>moduli r' bulk.
     calculate_moduli example_rock [Fin 25000000000] [Fin 2000] = Inr (moduli, r') \<and>
     average_moduli moduli example_scheme = Inr bulk \<and>
     length moduli = 2 \<and> length (V (moduli ! 0)) = 1 \<and> length (fraction (moduli ! 1)) = 1 \<and>
     length (V bulk) = 1 \<and> length (rho bulk) = 1 \<and> length (K bulk) = 1 \<and>
     length (G bulk) = 1 \<and> length (fraction bulk) = 1"
proof -
  obtain moduli r' where m: "calculate_moduli example_rock [Fin 25000000000] [Fin 2000] =
      Inr (moduli, r')"
    using example_rock_moduli by blast
  then have "length moduli = 2"
    by (auto simp: example_rock_moduli)
  then obtain bulk where b: "average_moduli moduli example_scheme = Inr bulk"
    using m example_rock_average by (auto simp: example_rock_moduli)
  have mem: "moduli ! 0 \<in> set moduli" "moduli ! 1 \<in> set moduli"
    using \<open>length moduli = 2\<close> by simp_all
  from elastic_properties_lengths
    [where r = example_rock and pressures = "[Fin 25000000000]"
      and temperatures = "[Fin 2000]" and moduli = moduli and r' = r'
      and averaging_scheme = example_scheme and bulk' = bulk] m b mem
  have "length (V (moduli ! 0)) = 1 \<and> length (fraction (moduli ! 1)) = 1 \<and>
     length (V bulk) = 1 \<and> length (rho bulk) = 1 \<and> length (K bulk) = 1 \<and>
     length (G bulk) = 1 \<and> length (fraction bulk) = 1"
    by simp
  with m b \<open>length moduli = 2\<close> show ?thesis by blast
qed

section \<open>A rock without phases\<close>

lemma calculate_moduli_body_no_phases:
  "calculate_moduli_body ps ts i ([], r) =
     (if i < length ps \<and> i < length ts then Inr ([], set_state r (ps ! i) (ts ! i))
      else Inl IndexError)"
  by (simp add: calculate_moduli_body_def bind_def getitem_def)

lemma set_state_twice: "set_state (set_state r a b) c d = set_state r c d"
  by (simp add: set_state_def)

lemma no_phases_inv_step:
  assumes "i < length ps" "i < length ts" "no_phases_inv r ps ts i t"
  shows "\<exists>t'. calculate_moduli_body ps ts i t = Inr t' \<and> no_phases_inv r ps ts (Suc i) t'"
  using assms
  by (auto simp: no_phases_inv_def calculate_moduli_body_no_phases set_state_twice)

text \<open>
  Claim C7, as amended.  On a rock whose phase list is empty \<^verbatim>\<open>calculate_moduli\<close>
  raises no error of its own: when \<open>temperatures\<close> has at least as many entries as
  \<open>pressures\<close> it returns the empty list of records, leaving the rock at the state of
  the last evaluation point; when \<open>temperatures\<close> is shorter it fails with
  \<^verbatim>\<open>IndexError\<close>.
\<close>

theorem calculate_moduli_no_phases:
  assumes "phases r = []"
  shows "(length pressures \<le> length temperatures \<longrightarrow>
            calculate_moduli r pressures temperatures =
              Inr ([], if pressures = [] then r
                       else set_state r (last pressures)
                              (temperatures ! (length pressures - 1)))) \<and>
         (length temperatures < length pressures \<longrightarrow>
            calculate_moduli r pressures temperatures = Inl IndexError)"
proof (intro conjI impI)
  have init: "no_phases_inv r pressures temperatures 0 ([], r)"
    by (simp add: no_phases_inv_def)
  have unfold: "calculate_moduli r pressures temperatures =
      for_range [0..<length pressures] (calculate_moduli_body pressures temperatures) ([], r)"
    using assms by (simp add: calculate_moduli_def)
  {
    assume le: "length pressures \<le> length temperatures"
    have "\<exists>s'. for_range [0..<length pressures]
            (calculate_moduli_body pressures temperatures) ([], r) = Inr s' \<and>
          no_phases_inv r pressures temperatures (length pressures) s'"
    proof (rule for_range_inv[where I = "no_phases_inv r pressures temperatures"])
      show "no_phases_inv r pressures temperatures 0 ([], r)" by (rule init)
    next
      fix i t
      assume "i < length pressures" "no_phases_inv r pressures temperatures i t"
      with le show "\<exists>t'. calculate_moduli_body pressures temperatures i t = Inr t' \<and>
          no_phases_inv r pressures temperatures (Suc i) t'"
        by (intro no_phases_inv_step) auto
    qed
    then show "calculate_moduli r pressures temperatures =
              Inr ([], if pressures = [] then r
                       else set_state r (last pressures)
                              (temperatures ! (length pressures - 1)))"
      by (auto simp: unfold no_phases_inv_def last_conv_nth)
  }
  {
    assume short: "length temperatures < length pressures"
    have "for_range [0..<length pressures]
            (calculate_moduli_body pressures temperatures) ([], r) = Inl IndexError"
    proof (rule for_range_fail[where I = "no_phases_inv r pressures temperatures"
          and k = "length temperatures"])
      show "length temperatures < length pressures" by (rule short)
    next
      show "no_phases_inv r pressures temperatures 0 ([], r)" by (rule init)
    next
      fix i t
      assume "i < length temperatures" "no_phases_inv r pressures temperatures i t"
      with short show "\<exists>t'. calculate_moduli_body pressures temperatures i t = Inr t' \<and>
          no_phases_inv r pressures temperatures (Suc i) t'"
        by (intro no_phases_inv_step) auto
    next
      fix t
      assume "no_phases_inv r pressures temperatures (length temperatures) t"
      then show "calculate_moduli_body pressures temperatures (length temperatures) t =
          Inl IndexError"
        by (simp add: no_phases_inv_def calculate_moduli_body_no_phases)
    qed
    then show "calculate_moduli r pressures temperatures = Inl IndexError"
      by (simp add: unfold)
  }
qed

text \<open>The theorem of C7 at a rock without phases, in both cases.\<close>

theorem calculate_moduli_no_phases_witness:
  "calculate_moduli \<lparr>phases = [], state = None\<rparr> [Fin 1, Fin 2] [Fin 3, Fin 4] =
     Inr ([], \<lparr>phases = [], state = Some (Fin 2, Fin 4)\<rparr>) \<and>
   calculate_moduli \<lparr>phases = [], state = None\<rparr> [Fin 1, Fin 2] [Fin 3] = Inl IndexError"
  using calculate_moduli_no_phases
      [of "\<lparr>phases = [], state = None\<rparr>" "[Fin 1, Fin 2]" "[Fin 3, Fin 4]"]
    calculate_moduli_no_phases
      [of "\<lparr>phases = [], state = None\<rparr>" "[Fin 1, Fin 2]" "[Fin 3]"]
  by (simp add: set_state_def)

text \<open>
  Claim C7 as stated fails: on the rock without phases, one pressure and one
  temperature, the call returns the empty list instead of failing.
\<close>

theorem calculate_moduli_no_phases_counterexample:
  "calculate_moduli \<lparr>phases = [], state = None\<rparr> [Fin 1] [Fin 2] =
     Inr ([], \<lparr>phases = [], state = Some (Fin 1, Fin 2)\<rparr>)"
  by (simp add: calculate_moduli_def calculate_moduli_body_def bind_def getitem_def
      set_state_def)

section \<open>The bulk average at one index\<close>

lemma column_ok:
  "(\<And>m. m \<in> set ms \<Longrightarrow> i < length (field m)) \<Longrightarrow> column field ms i = Inr (column_at field ms i)"
  by (induction ms) (simp_all add: column_at_def bind_def getitem_def)

lemma map2_same: "map2 f (map g xs) (map h xs) = map (\<lambda>x. f (g x) (h x)) xs"
  by (induction xs) simp_all

lemma average_moduli_body_step:
  assumes "\<And>m. m \<in> set ms \<Longrightarrow> sized m n" "i < n" "sized res n"
  shows "\<exists>res'. average_moduli_body sch ms i res = Inr res' \<and> sized res' n \<and>
           bulk_at sch ms res' i \<and>
           (\<forall>j. j \<noteq> i \<longrightarrow> V res' ! j = V res ! j \<and> K res' ! j = K res ! j \<and>
              G res' ! j = G res ! j \<and> rho res' ! j = rho res ! j \<and>
              fraction res' ! j = fraction res ! j)"
proof -
  have col: "column field ms i = Inr (column_at field ms i)"
    if "field = V \<or> field = rho \<or> field = K \<or> field = G \<or> field = fraction" for field
    using that assms(1,2) by (intro column_ok) (auto simp: sized_def)
  have mol: "np_binop fmul (column_at V ms i) (column_at fraction ms i) = Inr (V_mol_at ms i)"
    by (simp add: np_binop_def column_at_def V_mol_at_def map2_same)
  from assms(2,3) show ?thesis
    by (simp add: average_moduli_body_def col mol bind_def setitem_def Let_def sized_def
        bulk_at_def V_frac_at_def)
qed

lemma average_moduli_general:
  assumes "ms \<noteq> []" "\<And>m. m \<in> set ms \<Longrightarrow> sized m n"
  shows "\<exists>b. average_moduli ms sch = Inr b \<and> sized b n \<and> (\<forall>i<n. bulk_at sch ms b i)"
proof -
  define I where "I = (\<lambda>k res. sized res n \<and> (\<forall>j<k. bulk_at sch ms res j))"
  from assms have n: "length (V (ms ! 0)) = n"
    by (simp add: sized_def)
  have "\<exists>b. for_range [0..<n] (average_moduli_body sch ms)
          (set_size elastic_properties_init n) = Inr b \<and> I n b"
  proof (rule for_range_inv[where I = I])
    show "I 0 (set_size elastic_properties_init n)"
      by (simp add: I_def sized_def set_size_def np_ndarray_def)
  next
    fix i t
    assume i: "i < n" and "I i t"
    then have t: "sized t n" "\<forall>j<i. bulk_at sch ms t j" by (simp_all add: I_def)
    from average_moduli_body_step[OF assms(2) i t(1), of ms sch]
    obtain res' where res': "average_moduli_body sch ms i t = Inr res'" "sized res' n"
      "bulk_at sch ms res' i"
      and keep: "\<forall>j. j \<noteq> i \<longrightarrow> V res' ! j = V t ! j \<and> K res' ! j = K t ! j \<and>
              G res' ! j = G t ! j \<and> rho res' ! j = rho t ! j \<and>
              fraction res' ! j = fraction t ! j"
      by blast
    have "bulk_at sch ms res' j" if "j < Suc i" for j
    proof (cases "j = i")
      case True
      with res' show ?thesis by simp
    next
      case False
      with that t(2) have "bulk_at sch ms t j" by simp
      with keep False show ?thesis by (simp add: bulk_at_def)
    qed
    with res' show "\<exists>t'. average_moduli_body sch ms i t = Inr t' \<and> I (Suc i) t'"
      by (simp add: I_def)
  qed
  with assms(1) n show ?thesis
    by (auto simp: average_moduli_def bind_def getitem_def Let_def I_def)
qed

text \<open>
  Claim C1.  For a non-empty list of records whose arrays all have \<open>n\<close> cells and an
  index \<open>i < n\<close>, \<^verbatim>\<open>average_moduli\<close> returns a bulk record that at the index
  \<open>i\<close> holds: in \<open>V\<close> the sum of the molar-volume contributions
  \<open>V_mol[p] = V[p] * fraction[p]\<close>; in \<open>K\<close>, \<open>G\<close> and \<open>rho\<close> the results of
  the scheme's \<^verbatim>\<open>average_bulk_moduli\<close>, \<^verbatim>\<open>average_shear_moduli\<close> and
  \<^verbatim>\<open>average_density\<close> on the volume fractions \<open>V_frac[p] = V_mol[p] / sum(V_mol)\<close>;
  and in \<open>fraction\<close> the value 1.
\<close>

theorem average_moduli_at_index:
  assumes "moduli_list \<noteq> []"
    and "\<forall>m\<in>set moduli_list.
           length (V m) = n \<and> length (rho m) = n \<and> length (K m) = n \<and> length (G m) = n \<and>
           length (fraction m) = n"
    and "i < n"
  shows "\<exists>bulk. average_moduli moduli_list averaging_scheme = Inr bulk \<and>
     (let V_mol = map (\<lambda>m. fmul (V m ! i) (fraction m ! i)) moduli_list;
          V_frac = map (\<lambda>v. fdiv v (py_sum V_mol)) V_mol;
          K_ph = map (\<lambda>m. K m ! i) moduli_list;
          G_ph = map (\<lambda>m. G m ! i) moduli_list;
          rho_ph = map (\<lambda>m. rho m ! i) moduli_list
      in V bulk ! i = py_sum V_mol \<and>
         K bulk ! i = average_bulk_moduli averaging_scheme V_frac K_ph G_ph \<and>
         G bulk ! i = average_shear_moduli averaging_scheme V_frac K_ph G_ph \<and>
         rho bulk ! i = average_density averaging_scheme V_frac rho_ph \<and>
         fraction bulk ! i = Fin 1)"
proof -
  from assms(2) have "\<And>m. m \<in> set moduli_list \<Longrightarrow> sized m n"
    by (simp add: sized_def)
  from average_moduli_general[OF assms(1) this, of averaging_scheme] assms(3)
  obtain b where "average_moduli moduli_list averaging_scheme = Inr b"
    "bulk_at averaging_scheme moduli_list b i"
    by blast
  then show ?thesis
    by (auto simp: bulk_at_def V_frac_at_def V_mol_at_def column_at_def Let_def)
qed

text \<open>The theorem of C1 at the two records of the example rock.\<close>

theorem average_moduli_at_index_witness:
  "\<exists>bulk.
     average_moduli
       [\<lparr>V = [Fin (1 / 200000)], rho = [Fin 4000], K = [Fin 200000000000],
          G = [Fin 100000000000], fraction = [Fin (1 / 2)]\<rparr>,
        \<lparr>V = [Fin (1 / 100000)], rho = [Fin 3000], K = [Fin 100000000000],
          G = [Fin 50000000000], fraction = [Fin (1 / 2)]\<rparr>] example_scheme = Inr bulk \<and>
     V bulk ! 0 = Fin (3 / 400000) \<and> K bulk ! 0 = Fin (400000000000 / 3) \<and>
     G bulk ! 0 = Fin (200000000000 / 3) \<and> rho bulk ! 0 = Fin (10000 / 3) \<and>
     fraction bulk ! 0 = Fin 1"
  using average_moduli_at_index
    [of "[\<lparr>V = [Fin (1 / 200000)], rho = [Fin 4000], K = [Fin 200000000000],
            G = [Fin 100000000000], fraction = [Fin (1 / 2)]\<rparr>,
          \<lparr>V = [Fin (1 / 100000)], rho = [Fin 3000], K = [Fin 100000000000],
            G = [Fin 50000000000], fraction = [Fin (1 / 2)]\<rparr>]" 1 0 example_scheme]
  by (simp add: Let_def py_sum_def np_sum_def example_scheme_def voigt_average_bulk_moduli_def)

section \<open>Properties of the misfit scores\<close>

lemma foldl_fadd_Fin: "foldl fadd (Fin a) (map Fin rs) = Fin (a + sum_list rs)"
  by (induction rs arbitrary: a) (simp_all add: add.assoc)

lemma np_sum_Fin: "np_sum (map Fin rs) = Fin (sum_list rs)"
  by (simp add: np_sum_def foldl_fadd_Fin)

lemma map2_Fin:
  assumes "\<And>a b. f (Fin a) (Fin b) = Fin (g a b)"
  shows "map2 f (map Fin xs) (map Fin ys) = map Fin (map2 g xs ys)"
proof (induction xs arbitrary: ys)
  case Nil
  show ?case by simp
next
  case (Cons x xs)
  then show ?case by (cases ys) (simp_all add: assms)
qed

lemma np_binop_Fin:
  assumes "\<And>a b. f (Fin a) (Fin b) = Fin (g a b)" "length xs = length ys"
  shows "np_binop f (map Fin xs) (map Fin ys) = Inr (map Fin (map2 g xs ys))"
  using assms(2) by (simp add: np_binop_def map2_Fin[of f g, OF assms(1)])

lemma fsub_Fin: "fsub (Fin a) (Fin b) = Fin (a - b)"
  by (simp add: fsub_def)

lemma np_diff_Fin: "np_diff (map Fin xs) = map Fin (map2 (\<lambda>a b. b - a) (butlast xs) (tl xs))"
  by (simp add: np_diff_def map_butlast[symmetric] map_tl[symmetric]
      map2_Fin[of "\<lambda>a b. fsub b a" "\<lambda>a b. b - a"] fsub_Fin)

lemma trapezoid_sum:
  "length xs = length ys \<Longrightarrow>
   sum_list (map (\<lambda>v. v / 2)
     (map2 (*) (map2 (\<lambda>a b. b - a) (butlast xs) (tl xs)) (map2 (+) (tl ys) (butlast ys))))
   = trapezoid xs ys"
  by (induction xs ys rule: trapezoid.induct) (simp_all add: algebra_simps)

lemma trapz_Fin:
  assumes "length xs = length ys"
  shows "trapz (map Fin ys) (map Fin xs) = Inr (Fin (trapezoid xs ys))"
proof -
  have 1: "np_binop fadd (tl (map Fin ys)) (butlast (map Fin ys)) =
      Inr (map Fin (map2 (+) (tl ys) (butlast ys)))"
    by (simp add: map_butlast[symmetric] map_tl[symmetric] np_binop_Fin)
  have 2: "np_binop fmul (np_diff (map Fin xs)) (map Fin (map2 (+) (tl ys) (butlast ys))) =
      Inr (map Fin (map2 (*) (map2 (\<lambda>a b. b - a) (butlast xs) (tl xs))
              (map2 (+) (tl ys) (butlast ys))))"
    unfolding np_diff_Fin using assms by (intro np_binop_Fin) simp_all
  have 3: "map (\<lambda>v. fdiv v (Fin 2)) (map Fin zs) = map Fin (map (\<lambda>v. v / 2) zs)" for zs
    by simp
  show ?thesis
    unfolding trapz_def 1 bind_def sum.case 2 3 np_sum_Fin
    by (simp only: trapezoid_sum[OF assms])
qed

lemma l2_Fin:
  assumes "length funca = length funcb" "length x = length funca" "x \<noteq> []"
  shows "l2 (map Fin x) (map Fin funca) (map Fin funcb) =
           (if 0 < last x - hd x then Inr (Fin (l2_misfit x funca funcb))
            else Inl AssertionError)"
proof -
  have 1: "np_binop fsub (map Fin funca) (map Fin funcb) = Inr (map Fin (map2 (-) funca funcb))"
    using assms(1) by (simp add: np_binop_Fin fsub_Fin)
  have 2: "np_binop fmul (map Fin d) (map Fin d) = Inr (map Fin (map2 (*) d d))" for d
    by (simp add: np_binop_Fin)
  have sq: "map2 (*) (map2 (-) funca funcb) (map2 (-) funca funcb) =
      map2 (\<lambda>c ob. (c - ob)\<^sup>2) funca funcb"
    by (auto simp: zip_same_conv_map power2_eq_square)
  have 3: "getitem_last (map Fin x) = Inr (Fin (last x))"
    using assms(3) by (simp add: getitem_last_def last_map)
  have 4: "getitem (map Fin x) 0 = Inr (Fin (hd x))"
    using assms(3) by (simp add: getitem_def hd_conv_nth)
  have 5: "trapz (map Fin (map2 (\<lambda>c ob. (c - ob)\<^sup>2) funca funcb)) (map Fin x) =
      Inr (Fin (trapezoid x (map2 (\<lambda>c ob. (c - ob)\<^sup>2) funca funcb)))"
    using assms(1,2) by (intro trapz_Fin) simp
  show ?thesis
    unfolding l2_def 1 bind_def sum.case 2 sq 3 4
    by (simp add: 5 fsub_Fin l2_misfit_def del: map_map)
qed

lemma trapezoid_zero: "(\<And>y. y \<in> set ys \<Longrightarrow> y = 0) \<Longrightarrow> trapezoid xs ys = 0"
  by (induction xs ys rule: trapezoid.induct) simp_all

lemma l2_misfit_same: "l2_misfit depth calc calc = 0"
proof -
  have "trapezoid depth (map2 (\<lambda>c ob. (c - ob)\<^sup>2) calc calc) = 0"
    by (rule trapezoid_zero) (auto simp: zip_same_conv_map)
  then show ?thesis by (simp add: l2_misfit_def)
qed

text \<open>
  Claim C5.  For a non-empty depth axis and profiles of finite values of the length of
  the depth axis: when the span \<open>depth[-1] - depth[0]\<close> is strictly positive,
  \<^verbatim>\<open>l2\<close> returns the trapezoidal integral over depth of the squared pointwise
  difference divided by the span, \<^verbatim>\<open>compare_l2\<close> returns that value for the density,
  for Vphi and for Vs, in this order, and on identical computed and observed profiles
  the three values are 0; when the span is not strictly positive, \<^verbatim>\<open>l2\<close> and
  \<^verbatim>\<open>compare_l2\<close> fail on the assertion \<^verbatim>\<open>assert(length>0)\<close>, the failure the spec
  classes as a domain error.
\<close>

theorem compare_l2_trapezoid:
  assumes "depth \<noteq> []"
    and "length mat_rho = length depth" "length seis_rho = length depth"
    and "length mat_vphi = length depth" "length seis_vphi = length depth"
    and "length mat_vs = length depth" "length seis_vs = length depth"
  shows "(0 < last depth - hd depth \<longrightarrow>
            l2 (map Fin depth) (map Fin mat_rho) (map Fin seis_rho) =
              Inr (Fin (l2_misfit depth mat_rho seis_rho)) \<and>
            compare_l2 (map Fin depth) (map Fin mat_vs) (map Fin mat_vphi) (map Fin mat_rho)
                (map Fin seis_vs) (map Fin seis_vphi) (map Fin seis_rho) =
              Inr (Fin (l2_misfit depth mat_rho seis_rho),
                   Fin (l2_misfit depth mat_vphi seis_vphi),
                   Fin (l2_misfit depth mat_vs seis_vs)) \<and>
            compare_l2 (map Fin depth) (map Fin mat_vs) (map Fin mat_vphi) (map Fin mat_rho)
                (map Fin mat_vs) (map Fin mat_vphi) (map Fin mat_rho) =
              Inr (Fin 0, Fin 0, Fin 0)) \<and>
         (\<not> 0 < last depth - hd depth \<longrightarrow>
            l2 (map Fin depth) (map Fin mat_rho) (map Fin seis_rho) = Inl AssertionError \<and>
            compare_l2 (map Fin depth) (map Fin mat_vs) (map Fin mat_vphi) (map Fin mat_rho)
                (map Fin seis_vs) (map Fin seis_vphi) (map Fin seis_rho) =
              Inl AssertionError)"
proof -
  have l2: "l2 (map Fin depth) (map Fin a) (map Fin b) =
           (if 0 < last depth - hd depth then Inr (Fin (l2_misfit depth a b))
            else Inl AssertionError)"
    if "length a = length depth" "length b = length depth" for a b
    using that assms(1) by (intro l2_Fin) simp_all
  show ?thesis
    unfolding compare_l2_def
    using assms by (simp add: l2 bind_def l2_misfit_same del: map_map)
qed

text \<open>The theorem of C5 at a depth axis of positive span and at one of span 0.\<close>

theorem compare_l2_trapezoid_witness:
  "l2 [Fin 0, Fin 1, Fin 3] [Fin 1, Fin 2, Fin 3] [Fin 1, Fin 1, Fin 1] = Inr (Fin (11 / 6)) \<and>
   compare_l2 [Fin 0, Fin 1, Fin 3] [Fin 1, Fin 2, Fin 3] [Fin 1, Fin 2, Fin 3]
       [Fin 1, Fin 2, Fin 3] [Fin 1, Fin 1, Fin 1] [Fin 1, Fin 1, Fin 1] [Fin 1, Fin 1, Fin 1] =
     Inr (Fin (11 / 6), Fin (11 / 6), Fin (11 / 6)) \<and>
   compare_l2 [Fin 0, Fin 1, Fin 3] [Fin 1, Fin 2, Fin 3] [Fin 1, Fin 2, Fin 3]
       [Fin 1, Fin 2, Fin 3] [Fin 1, Fin 2, Fin 3] [Fin 1, Fin 2, Fin 3] [Fin 1, Fin 2, Fin 3] =
     Inr (Fin 0, Fin 0, Fin 0) \<and>
   l2 [Fin 3, Fin 1, Fin 3] [Fin 1, Fin 2, Fin 3] [Fin 1, Fin 1, Fin 1] = Inl AssertionError \<and>
   compare_l2 [Fin 3, Fin 1, Fin 3] [Fin 1, Fin 2, Fin 3] [Fin 1, Fin 2, Fin 3]
       [Fin 1, Fin 2, Fin 3] [Fin 1, Fin 1, Fin 1] [Fin 1, Fin 1, Fin 1] [Fin 1, Fin 1, Fin 1] =
     Inl AssertionError"
  using compare_l2_trapezoid
      [of "[0, 1, 3]" "[1, 2, 3]" "[1, 1, 1]" "[1, 2, 3]" "[1, 1, 1]" "[1, 2, 3]" "[1, 1, 1]"]
    compare_l2_trapezoid
      [of "[3, 1, 3]" "[1, 2, 3]" "[1, 1, 1]" "[1, 2, 3]" "[1, 1, 1]" "[1, 2, 3]" "[1, 1, 1]"]
  by (simp add: l2_misfit_def)

lemma chi_factor_general:
  assumes "length calc \<le> length obs"
  shows "chi_factor np_mean calc obs =
           Inr (fdiv (np_sum (map (chi_err np_mean calc obs) [0..<length calc]))
                  (Fin (real (length calc))))"
proof -
  define n where "n = length calc"
  define I where
    "I = (\<lambda>k err. length err = n \<and> (\<forall>j<k. err ! j = chi_err np_mean calc obs j))"
  have "\<exists>err. for_range [0..<n] (chi_factor_body np_mean calc obs) (np_empty_like calc) =
      Inr err \<and> I n err"
  proof (rule for_range_inv[where I = I])
    show "I 0 (np_empty_like calc)"
      by (simp add: I_def np_empty_like_def n_def)
  next
    fix i t
    assume "i < n" "I i t"
    with assms show "\<exists>t'. chi_factor_body np_mean calc obs i t = Inr t' \<and> I (Suc i) t'"
      by (auto simp: I_def n_def chi_factor_body_def bind_def getitem_def setitem_def
          chi_err_def less_Suc_eq nth_list_update)
  qed
  then obtain err where err: "for_range [0..<n] (chi_factor_body np_mean calc obs)
      (np_empty_like calc) = Inr err" "I n err"
    by blast
  from err(2) have "err = map (chi_err np_mean calc obs) [0..<n]"
    by (intro nth_equalityI) (simp_all add: I_def)
  with err(1) show ?thesis
    by (simp add: chi_factor_def bind_def n_def[symmetric])
qed

lemma chi_err_Fin:
  assumes "i < length calc" "i < length obs"
    and "np_mean (map Fin obs) = Fin m" "fmul (Fin 0.01) (Fin m) \<noteq> Fin 0"
  shows "chi_err np_mean (map Fin calc) (map Fin obs) i =
           Fin (((calc ! i - obs ! i) / (0.01 * m))\<^sup>2)"
  using assms by (simp add: chi_err_def fsub_Fin pow_2_def power2_eq_square)

lemma chi_err_same:
  assumes "i < length obs"
  shows "chi_err np_mean (map Fin obs) (map Fin obs) i =
           (if fmul (Fin 0.01) (np_mean (map Fin obs)) = Fin 0 \<or>
               fmul (Fin 0.01) (np_mean (map Fin obs)) = NaN
            then NaN else Fin 0)"
  using assms
  by (cases "fmul (Fin 0.01) (np_mean (map Fin obs))")
    (simp_all add: chi_err_def fsub_Fin pow_2_def)

lemma foldl_fadd_NaN: "foldl fadd NaN xs = NaN"
  by (induction xs) simp_all

lemma np_sum_all_NaN: "0 < n \<Longrightarrow> np_sum (map (\<lambda>i. NaN) [0..<n]) = NaN"
  by (simp add: np_sum_def upt_conv_Cons foldl_fadd_NaN)

lemma np_sum_all_zero: "np_sum (map (\<lambda>i. Fin 0) ns) = Fin 0"
  by (induction ns) (simp_all add: np_sum_def)

lemma chi_factor_Fin:
  assumes "length calc = length obs" "calc \<noteq> []"
    and "np_mean (map Fin obs) = Fin m" "fmul (Fin 0.01) (Fin m) \<noteq> Fin 0"
  shows "chi_factor np_mean (map Fin calc) (map Fin obs) = Inr (Fin (chi_misfit m calc obs))"
proof -
  have eq: "map (chi_err np_mean (map Fin calc) (map Fin obs)) [0..<length calc] =
      map Fin (map2 (\<lambda>c ob. ((c - ob) / (0.01 * m))\<^sup>2) calc obs)"
    using assms by (intro nth_equalityI) (simp_all add: chi_err_Fin)
  have "chi_factor np_mean (map Fin calc) (map Fin obs) =
      Inr (fdiv (np_sum (map (chi_err np_mean (map Fin calc) (map Fin obs))
                   [0..<length (map Fin calc)])) (Fin (real (length (map Fin calc)))))"
    by (rule chi_factor_general) (simp add: assms)
  also have "\<dots> = Inr (Fin (chi_misfit m calc obs))"
    using assms(2) by (simp add: eq np_sum_Fin chi_misfit_def del: map_map)
  finally show ?thesis .
qed

lemma chi_factor_same:
  assumes "obs \<noteq> []"
  shows "chi_factor np_mean (map Fin obs) (map Fin obs) =
           (if fmul (Fin 0.01) (np_mean (map Fin obs)) = Fin 0 \<or>
               fmul (Fin 0.01) (np_mean (map Fin obs)) = NaN
            then Inr NaN else Inr (Fin 0))"
proof -
  let ?v = "if fmul (Fin 0.01) (np_mean (map Fin obs)) = Fin 0 \<or>
               fmul (Fin 0.01) (np_mean (map Fin obs)) = NaN
            then NaN else Fin 0"
  have eq: "map (chi_err np_mean (map Fin obs) (map Fin obs)) [0..<length obs] =
      map (\<lambda>i. ?v) [0..<length obs]"
    by (intro nth_equalityI) (simp_all add: chi_err_same)
  have "chi_factor np_mean (map Fin obs) (map Fin obs) =
      Inr (fdiv (np_sum (map (chi_err np_mean (map Fin obs) (map Fin obs))
                   [0..<length (map Fin obs)])) (Fin (real (length (map Fin obs)))))"
    by (rule chi_factor_general) simp
  also have "\<dots> = Inr ?v"
    using assms by (simp add: eq np_sum_all_NaN np_sum_all_zero del: map_map)
  finally show ?thesis by simp
qed

text \<open>
  Claim C6, as amended.  Let \<open>m\<close> be the value that \<^verbatim>\<open>np.mean\<close> returns on the whole
  observed array and \<open>0.01 * m\<close> the divisor that the code computes from it.  For
  non-empty computed and observed profiles of finite values and equal length: when
  \<open>m\<close> is finite and the divisor is not 0, \<^verbatim>\<open>chi_factor\<close> returns the mean over the
  points of \<open>((calc[i] - obs[i]) / (0.01 * m))^2\<close>; on identical profiles it returns
  0 when the divisor is neither 0 nor NaN, and NaN (from \<open>0 / 0\<close>) when the divisor
  is 0 or NaN, which happens when the observed mean is 0 and when it rounds to 0.
  \<^verbatim>\<open>compare_chifactor\<close> returns the three values, for the density, Vphi and Vs in
  this order, without adding them.
\<close>

theorem compare_chifactor_mean:
  assumes "mat_rho \<noteq> []" "length mat_rho = length seis_rho"
    and "mat_vphi \<noteq> []" "length mat_vphi = length seis_vphi"
    and "mat_vs \<noteq> []" "length mat_vs = length seis_vs"
  shows "(np_mean (map Fin seis_rho) = Fin m_rho \<and> fmul (Fin 0.01) (Fin m_rho) \<noteq> Fin 0 \<longrightarrow>
            chi_factor np_mean (map Fin mat_rho) (map Fin seis_rho) =
              Inr (Fin (chi_misfit m_rho mat_rho seis_rho))) \<and>
         (fmul (Fin 0.01) (np_mean (map Fin seis_rho)) \<noteq> Fin 0 \<and>
          fmul (Fin 0.01) (np_mean (map Fin seis_rho)) \<noteq> NaN \<longrightarrow>
            chi_factor np_mean (map Fin seis_rho) (map Fin seis_rho) = Inr (Fin 0)) \<and>
         (fmul (Fin 0.01) (np_mean (map Fin seis_rho)) = Fin 0 \<or>
          fmul (Fin 0.01) (np_mean (map Fin seis_rho)) = NaN \<longrightarrow>
            chi_factor np_mean (map Fin seis_rho) (map Fin seis_rho) = Inr NaN) \<and>
         (np_mean (map Fin seis_rho) = Fin m_rho \<and> fmul (Fin 0.01) (Fin m_rho) \<noteq> Fin 0 \<and>
          np_mean (map Fin seis_vphi) = Fin m_vphi \<and> fmul (Fin 0.01) (Fin m_vphi) \<noteq> Fin 0 \<and>
          np_mean (map Fin seis_vs) = Fin m_vs \<and> fmul (Fin 0.01) (Fin m_vs) \<noteq> Fin 0 \<longrightarrow>
            compare_chifactor np_mean (map Fin mat_vs) (map Fin mat_vphi) (map Fin mat_rho)
                (map Fin seis_vs) (map Fin seis_vphi) (map Fin seis_rho) =
              Inr (Fin (chi_misfit m_rho mat_rho seis_rho),
                   Fin (chi_misfit m_vphi mat_vphi seis_vphi),
                   Fin (chi_misfit m_vs mat_vs seis_vs)) \<and>
            compare_chifactor np_mean (map Fin seis_vs) (map Fin seis_vphi) (map Fin seis_rho)
                (map Fin seis_vs) (map Fin seis_vphi) (map Fin seis_rho) =
              Inr (Fin 0, Fin 0, Fin 0))"
proof -
  from assms have ne: "seis_rho \<noteq> []" "seis_vphi \<noteq> []" "seis_vs \<noteq> []" by auto
  have calc: "chi_factor np_mean (map Fin c) (map Fin ob) = Inr (Fin (chi_misfit m c ob))"
    if "c \<noteq> []" "length c = length ob" "np_mean (map Fin ob) = Fin m"
      "fmul (Fin 0.01) (Fin m) \<noteq> Fin 0" for c ob m
    using that by (intro chi_factor_Fin) simp_all
  have same0: "chi_factor np_mean (map Fin ob) (map Fin ob) = Inr (Fin 0)"
    if "ob \<noteq> []" "fmul (Fin 0.01) (np_mean (map Fin ob)) \<noteq> Fin 0"
      "fmul (Fin 0.01) (np_mean (map Fin ob)) \<noteq> NaN" for ob
    using that by (simp add: chi_factor_same del: map_map)
  have sameN: "chi_factor np_mean (map Fin ob) (map Fin ob) = Inr NaN"
    if "ob \<noteq> []" "fmul (Fin 0.01) (np_mean (map Fin ob)) = Fin 0 \<or>
      fmul (Fin 0.01) (np_mean (map Fin ob)) = NaN" for ob
    using that by (simp add: chi_factor_same del: map_map)
  have same0': "chi_factor np_mean (map Fin ob) (map Fin ob) = Inr (Fin 0)"
    if "ob \<noteq> []" "np_mean (map Fin ob) = Fin m" "fmul (Fin 0.01) (Fin m) \<noteq> Fin 0" for ob m
    using that by (intro same0) simp_all
  show ?thesis
  proof (intro conjI impI)
    assume "np_mean (map Fin seis_rho) = Fin m_rho \<and> fmul (Fin 0.01) (Fin m_rho) \<noteq> Fin 0"
    with assms show "chi_factor np_mean (map Fin mat_rho) (map Fin seis_rho) =
        Inr (Fin (chi_misfit m_rho mat_rho seis_rho))"
      by (intro calc) simp_all
  next
    assume "fmul (Fin 0.01) (np_mean (map Fin seis_rho)) \<noteq> Fin 0 \<and>
        fmul (Fin 0.01) (np_mean (map Fin seis_rho)) \<noteq> NaN"
    with ne show "chi_factor np_mean (map Fin seis_rho) (map Fin seis_rho) = Inr (Fin 0)"
      by (intro same0) simp_all
  next
    assume "fmul (Fin 0.01) (np_mean (map Fin seis_rho)) = Fin 0 \<or>
        fmul (Fin 0.01) (np_mean (map Fin seis_rho)) = NaN"
    with ne show "chi_factor np_mean (map Fin seis_rho) (map Fin seis_rho) = Inr NaN"
      by (intro sameN) simp_all
  next
    assume a: "np_mean (map Fin seis_rho) = Fin m_rho \<and> fmul (Fin 0.01) (Fin m_rho) \<noteq> Fin 0 \<and>
          np_mean (map Fin seis_vphi) = Fin m_vphi \<and> fmul (Fin 0.01) (Fin m_vphi) \<noteq> Fin 0 \<and>
          np_mean (map Fin seis_vs) = Fin m_vs \<and> fmul (Fin 0.01) (Fin m_vs) \<noteq> Fin 0"
    have 1: "chi_factor np_mean (map Fin mat_rho) (map Fin seis_rho) =
        Inr (Fin (chi_misfit m_rho mat_rho seis_rho))"
      using assms a by (intro calc) simp_all
    have 2: "chi_factor np_mean (map Fin mat_vphi) (map Fin seis_vphi) =
        Inr (Fin (chi_misfit m_vphi mat_vphi seis_vphi))"
      using assms a by (intro calc) simp_all
    have 3: "chi_factor np_mean (map Fin mat_vs) (map Fin seis_vs) =
        Inr (Fin (chi_misfit m_vs mat_vs seis_vs))"
      using assms a by (intro calc) simp_all
    show "compare_chifactor np_mean (map Fin mat_vs) (map Fin mat_vphi) (map Fin mat_rho)
                (map Fin seis_vs) (map Fin seis_vphi) (map Fin seis_rho) =
              Inr (Fin (chi_misfit m_rho mat_rho seis_rho),
                   Fin (chi_misfit m_vphi mat_vphi seis_vphi),
                   Fin (chi_misfit m_vs mat_vs seis_vs))"
      unfolding compare_chifactor_def 1 2 3 by (simp add: bind_def)
    have 4: "chi_factor np_mean (map Fin seis_rho) (map Fin seis_rho) = Inr (Fin 0)"
      using ne a by (intro same0'[where m = m_rho]) simp_all
    have 5: "chi_factor np_mean (map Fin seis_vphi) (map Fin seis_vphi) = Inr (Fin 0)"
      using ne a by (intro same0'[where m = m_vphi]) simp_all
    have 6: "chi_factor np_mean (map Fin seis_vs) (map Fin seis_vs) = Inr (Fin 0)"
      using ne a by (intro same0'[where m = m_vs]) simp_all
    show "compare_chifactor np_mean (map Fin seis_vs) (map Fin seis_vphi) (map Fin seis_rho)
                (map Fin seis_vs) (map Fin seis_vphi) (map Fin seis_rho) =
              Inr (Fin 0, Fin 0, Fin 0)"
      unfolding compare_chifactor_def 4 5 6 by (simp add: bind_def)
  qed
qed

text \<open>
  The theorem of C6 at profiles of two points, with the exact mean: an observed mean of
  2 and an observed mean of 0.
\<close>

theorem compare_chifactor_mean_witness:
  "chi_factor exact_mean [Fin 3, Fin 1] [Fin 1, Fin 3] = Inr (Fin 10000) \<and>
   chi_factor exact_mean [Fin 1, Fin 3] [Fin 1, Fin 3] = Inr (Fin 0) \<and>
   chi_factor exact_mean [Fin 1, Fin (- 1)] [Fin 1, Fin (- 1)] = Inr NaN \<and>
   compare_chifactor exact_mean [Fin 3, Fin 1] [Fin 3, Fin 1] [Fin 3, Fin 1]
       [Fin 1, Fin 3] [Fin 1, Fin 3] [Fin 1, Fin 3] =
     Inr (Fin 10000, Fin 10000, Fin 10000) \<and>
   compare_chifactor exact_mean [Fin 1, Fin 3] [Fin 1, Fin 3] [Fin 1, Fin 3]
       [Fin 1, Fin 3] [Fin 1, Fin 3] [Fin 1, Fin 3] =
     Inr (Fin 0, Fin 0, Fin 0)"
  using compare_chifactor_mean
      [where mat_rho = "[3, 1]" and seis_rho = "[1, 3]" and mat_vphi = "[3, 1]"
        and seis_vphi = "[1, 3]" and mat_vs = "[3, 1]" and seis_vs = "[1, 3]"
        and np_mean = exact_mean and m_rho = 2 and m_vphi = 2 and m_vs = 2]
    compare_chifactor_mean
      [where mat_rho = "[1, - 1]" and seis_rho = "[1, - 1]" and mat_vphi = "[3, 1]"
        and seis_vphi = "[1, 3]" and mat_vs = "[3, 1]" and seis_vs = "[1, 3]"
        and np_mean = exact_mean and m_rho = 0 and m_vphi = 2 and m_vs = 2]
  by (simp add: chi_misfit_def exact_mean_def np_sum_def)

text \<open>
  Claim C6 as stated fails: on the identical profiles \<open>[0.0]\<close> and \<open>[0.0]\<close> the
  observed mean is 0, the loop divides \<open>0.0\<close> by \<open>0.0\<close>, and the score is NaN, not 0.
\<close>

theorem chi_factor_zero_mean_counterexample:
  "chi_factor exact_mean [Fin 0] [Fin 0] = Inr NaN \<and>
   chi_factor exact_mean [Fin 0] [Fin 0] \<noteq> Inr (Fin 0)"
  by (simp add: chi_factor_def chi_factor_body_def bind_def getitem_def setitem_def
      np_empty_like_def exact_mean_def np_sum_def fsub_def pow_2_def)

end
